theory Spec2Isabelle
  imports Main "HOL-Library.AList"
begin

section \<open>Data model\<close>

text \<open>
  The two source files hold the same program twice: the connection object \<open>Comet\<close> and the
  registry \<open>cometMgr\<close>. They differ only in \<open>_send\<close> (the older file encrypts with
  \<open>aes.aesEnc\<close> and writes two more header lines, the newer one has the optional pack hook
  \<open>pkFunc\<close>). Everything below follows the newer file; the older \<open>_send\<close> is modelled
  beside it as \<open>u_send_aes\<close>.

  Conventions of the embedding:
  \<^item> a \<open>Comet\<close> object lives in a store (\<open>heap\<close>) under an address, because the registry,
    timers and listeners keep references to a connection after it left the by-id index;
  \<^item> a JavaScript object used as a dictionary is an association list (own string keys
    only; the prototype chain is not modelled);
  \<^item> a value that may be \<open>undefined\<close> is an \<open>option\<close>, \<open>None\<close> being \<open>undefined\<close>;
  \<^item> strings are byte strings (the UTF-8 bytes that \<open>Buffer\<close> would produce);
  \<^item> JavaScript numbers are modelled by integers (exact below \<open>2^53\<close>);
  \<^item> every call that leaves the program (the transport \<open>resp\<close>/\<open>req\<close>, the console, a
    callback supplied by the user) is appended to \<open>trace\<close>; such calls are taken to
    return normally and not to call back into the connection;
  \<^item> an exception is a value: an operation returns \<open>(Inl e, w)\<close> when it throws \<open>e\<close>
    leaving the world \<open>w\<close>, and \<open>(Inr v, w)\<close> when it returns \<open>v\<close>.
  A leading underscore of a source name is written \<open>u_\<close>.
\<close>

type_synonym ref = nat

datatype close_code = CLOSE_TIMEOUT | CLOSE_PEER | CLOSE_COMPEL

datatype error = TypeError string

text \<open>A callback slot holds a function of the user (known by a name) or the closure that
  \<open>createComet\<close> installs.\<close>

datatype handler = User string | Mgr

text \<open>A message object: the two fields the program reads, and the remaining fields.\<close>

record msg =
  msg_sid :: "string option"
  msg_interval :: "int option"
  msg_fields :: "(string \<times> string) list"

text \<open>The receiver (\<open>this\<close>) a function is called with.\<close>

datatype receiver = ThisComet ref | ThisEmitter | ThisUndefined

text \<open>What the pack hook does with the continuation it is given: it never calls it, or
  it calls it with some receiver, an error (\<open>None\<close> when falsy) and the packed data.\<close>

datatype pack_result = NoReply | Reply receiver "string option" string

text \<open>A listener that \<open>sendMsg\<close> attaches to an emitter: the closure's captured \<open>sid\<close> and
  \<open>echoCb\<close> (\<open>None\<close> when the caller passed no function).\<close>

datatype listener = EchoListener string "string option"

type_synonym emitter = "listener list"

datatype event =
    ReqSetTimeout ref
  | WriteHead ref nat string string
  | RespOnClose ref
  | Write ref string
  | End ref
  | Console string
  | CloseCalled ref string close_code string
  | ErrorCalled ref string string
  | SendCalled ref handler string string msg
  | EchoCalled ref handler "string option" string msg
  | RemoveCalled ref handler string
  | HeartCalled ref handler
  | EchoCbCalled ref string msg "string list"

text \<open>\<open>EchoCbCalled r f m ks\<close> is the call \<open>echoCb(echoMsg)\<close> of the user's function \<open>f\<close>;
  \<open>ks\<close> are the keys of the connection's \<open>eventPool\<close> at the moment of the call, which
  is what the callback can observe of it.\<close>

record comet =
  id_c :: string
  eventPool :: "(string \<times> emitter) list"
  loopTimeout :: int
  timeId :: nat
  closeReason :: "close_code option"
  closeFlag :: bool
  closeFunc :: "string option"
  errFunc :: "string option"
  sendFunc :: "handler option"
  echoFunc :: "handler option"
  rmFunc :: "handler option"
  hbFunc :: "handler option"
  pkFunc :: "(string \<Rightarrow> pack_result) option"
  key :: "string option"

record keyinfo =
  k_cid :: string
  visits :: nat
  lastVisit :: nat
  alive :: nat

text \<open>The world: the store of connection objects, the registry's three indices, the
  timers pending in the runtime (handle to owner and delay) and the trace.\<close>

record world =
  heap :: "ref \<Rightarrow> comet option"
  nextRef :: nat
  comets :: "(string \<times> ref) list"
  sendIds :: "(string \<times> string) list"
  keyMap :: "(string \<times> keyinfo) list"
  timers :: "nat \<Rightarrow> (ref \<times> int) option"
  nextTimer :: nat
  trace :: "event list"

type_synonym 'a res = "(error + 'a) \<times> world"

section \<open>Primitives\<close>

definition ok :: "'a \<Rightarrow> world \<Rightarrow> 'a res" where
  "ok v w = (Inr v, w)"

definition throw :: "error \<Rightarrow> world \<Rightarrow> 'a res" where
  "throw e w = (Inl e, w)"

definition andThen :: "unit res \<Rightarrow> (world \<Rightarrow> 'a res) \<Rightarrow> 'a res" where
  "andThen x f = (case x of (Inl e, w) \<Rightarrow> (Inl e, w) | (Inr _, w) \<Rightarrow> f w)"

definition emit :: "event \<Rightarrow> world \<Rightarrow> world" where
  "emit e w = w\<lparr>trace := trace w @ [e]\<rparr>"

definition modify :: "ref \<Rightarrow> (comet \<Rightarrow> comet) \<Rightarrow> world \<Rightarrow> world" where
  "modify r f w = w\<lparr>heap := (heap w)(r := map_option f (heap w r))\<rparr>"

definition no_object :: error where
  "no_object = TypeError ''Cannot read property of undefined''"

definition not_a_function :: "string \<Rightarrow> error" where
  "not_a_function f = TypeError (f @ '' is not a function'')"

text \<open>Truthiness of a string that may be undefined, and the property key a value is
  turned into.\<close>

definition truthy :: "string option \<Rightarrow> bool" where
  "truthy v = (case v of None \<Rightarrow> False | Some s \<Rightarrow> s \<noteq> [])"

definition prop_key :: "string option \<Rightarrow> string" where
  "prop_key v = (case v of None \<Rightarrow> ''undefined'' | Some s \<Rightarrow> s)"

text \<open>The runtime's timers (Node's \<open>setTimeout\<close>, not part of the sources). A delay
  that is not between \<open>1\<close> and \<open>2^31 - 1\<close> milliseconds is replaced by \<open>1\<close>; the pending
  set records the delay the timer really runs with. \<open>setTimeout\<close> returns a handle
  different from \<open>0\<close>.\<close>

definition TIMEOUT_MAX :: int where
  "TIMEOUT_MAX = 2147483647"

definition timer_delay :: "int \<Rightarrow> int" where
  "timer_delay msec = (if 1 \<le> msec \<and> msec \<le> TIMEOUT_MAX then msec else 1)"

definition setTimeout_js :: "ref \<Rightarrow> int \<Rightarrow> world \<Rightarrow> nat \<times> world" where
  "setTimeout_js r msec w =
     (let h = Suc (nextTimer w)
      in (h, w\<lparr>timers := (timers w)(h \<mapsto> (r, timer_delay msec)), nextTimer := h\<rparr>))"

definition clearTimeout_js :: "nat \<Rightarrow> world \<Rightarrow> world" where
  "clearTimeout_js h w = w\<lparr>timers := (timers w)(h := None)\<rparr>"

section \<open>Wire framing\<close>

definition CRLF :: string where
  "CRLF = [CHR 0x0D, CHR 0x0A]"

definition digit_char :: "nat \<Rightarrow> char" where
  "digit_char d =
     (if d = 0 then CHR ''0'' else if d = 1 then CHR ''1'' else if d = 2 then CHR ''2''
      else if d = 3 then CHR ''3'' else if d = 4 then CHR ''4'' else if d = 5 then CHR ''5''
      else if d = 6 then CHR ''6'' else if d = 7 then CHR ''7'' else if d = 8 then CHR ''8''
      else CHR ''9'')"

text \<open>The decimal digits of a length, as the string concatenation \<open>'...' + bufData.length\<close>
  produces them.\<close>

function decimal :: "nat \<Rightarrow> string" where
  "decimal n = (if n < 10 then [digit_char n] else decimal (n div 10) @ [digit_char (n mod 10)])"
  by pat_completeness auto
termination
  by (relation "measure (\<lambda>n. n)") auto

declare decimal.simps [simp del]

definition SEND_CONTENT_TYPE_DEV :: string where
  "SEND_CONTENT_TYPE_DEV = ''multipart/x-mixed-replace;boundary=ctalk_boundary''"

definition SEND_CONTENT_TYPE_APP :: string where
  "SEND_CONTENT_TYPE_APP = ''application/x-cloud-snipd''"

definition CONTENT_TYPE :: string where
  "CONTENT_TYPE = ''multipart/x-mixed-replace;boundary=ctalk_boundary''"

definition fmtHeader :: "string \<Rightarrow> string \<Rightarrow> string \<Rightarrow> string" where
  "fmtHeader prefix contentType bufData =
     prefix @ ''Content-Type: '' @ contentType @
     CRLF @ ''Content-Length: '' @ decimal (length bufData) @ CRLF @ CRLF"

definition fmtTail :: string where
  "fmtTail = CRLF @ ''--ctalk_boundary''"

definition bufAll :: "string \<Rightarrow> string \<Rightarrow> string \<Rightarrow> string" where
  "bufAll prefix contentType bufData =
     concat [fmtHeader prefix contentType bufData, bufData, fmtTail]"

text \<open>The older file's header: two more (empty) header fields after the length.\<close>

definition fmtHeader_aes :: "string \<Rightarrow> string \<Rightarrow> string \<Rightarrow> string" where
  "fmtHeader_aes prefix contentType bufData =
     prefix @ ''Content-Type: '' @ contentType @
     CRLF @ ''Content-Length: '' @ decimal (length bufData) @
     CRLF @ ''X-Address: '' @ CRLF @ ''X-Remote-Address: '' @ CRLF @ CRLF"

definition bufAll_aes :: "string \<Rightarrow> string \<Rightarrow> string \<Rightarrow> string" where
  "bufAll_aes prefix contentType bufData =
     concat [fmtHeader_aes prefix contentType bufData, bufData, fmtTail]"

section \<open>The registry's internal operations\<close>

definition u_regSendId :: "string \<Rightarrow> string \<Rightarrow> world \<Rightarrow> world" where
  "u_regSendId cid sid w =
     emit (Console ''comet: add sender'') (w\<lparr>sendIds := AList.update sid cid (sendIds w)\<rparr>)"

definition u_unregSendId :: "string \<Rightarrow> world \<Rightarrow> world" where
  "u_unregSendId sid w =
     (let w1 = emit (Console ''comet: remove sender'') w
      in w1\<lparr>sendIds := AList.delete sid (sendIds w1)\<rparr>)"

text \<open>The \<open>for (var sid in this.sendIds)\<close> loop visits the keys present when it starts and
  deletes the visited key when its value is \<open>cid\<close>.\<close>

definition u_deleteComet :: "string \<Rightarrow> world \<Rightarrow> world" where
  "u_deleteComet cid w =
     (let w1 = w\<lparr>comets := AList.delete cid (comets w)\<rparr>
      in w1\<lparr>sendIds :=
             fold (\<lambda>sid ids. if map_of ids sid = Some cid then AList.delete sid ids else ids)
                  (map fst (sendIds w1)) (sendIds w1)\<rparr>)"

section \<open>What the function in a callback slot does\<close>

text \<open>A user's function only shows in the trace; the closures of \<open>createComet\<close> update the
  registry. The heartbeat closure is called as a method of the connection, so its
  \<open>this.key\<close> is the connection's key; assigning \<open>alive\<close> on a missing \<open>keyMap\<close> entry
  throws. \<open>now\<close> is what \<open>Date.now()\<close> returns.\<close>

definition apply_sendFunc :: "handler \<Rightarrow> string \<Rightarrow> string \<Rightarrow> world \<Rightarrow> world" where
  "apply_sendFunc h cid sid w = (case h of User f \<Rightarrow> w | Mgr \<Rightarrow> u_regSendId cid sid w)"

definition apply_echoFunc :: "handler \<Rightarrow> string \<Rightarrow> world \<Rightarrow> world" where
  "apply_echoFunc h sid w = (case h of User f \<Rightarrow> w | Mgr \<Rightarrow> u_unregSendId sid w)"

definition apply_rmFunc :: "handler \<Rightarrow> string \<Rightarrow> world \<Rightarrow> world" where
  "apply_rmFunc h cid w = (case h of User f \<Rightarrow> w | Mgr \<Rightarrow> u_deleteComet cid w)"

definition apply_hbFunc :: "handler \<Rightarrow> ref \<Rightarrow> nat \<Rightarrow> world \<Rightarrow> unit res" where
  "apply_hbFunc h r now w =
     (case h of
        User f \<Rightarrow> ok () w
      | Mgr \<Rightarrow>
          (case heap w r of
             None \<Rightarrow> throw no_object w
           | Some c \<Rightarrow>
               if truthy (key c) then
                 (case map_of (keyMap w) (prop_key (key c)) of
                    None \<Rightarrow> throw no_object w
                  | Some e \<Rightarrow>
                      ok () (w\<lparr>keyMap := AList.update (prop_key (key c)) (e\<lparr>alive := now\<rparr>) (keyMap w)\<rparr>))
               else ok () w))"

section \<open>The connection object\<close>

text \<open>The constructor; \<open>fresh\<close> is what \<open>uuid.v4()\<close> returns.\<close>

definition new_Comet :: "string option \<Rightarrow> string \<Rightarrow> world \<Rightarrow> ref \<times> world" where
  "new_Comet cid fresh w =
     (let c = \<lparr>id_c = (if \<not> truthy cid then fresh else prop_key cid),
               eventPool = [], loopTimeout = 5 * 60 * 1000, timeId = 0,
               closeReason = None, closeFlag = False,
               closeFunc = None, errFunc = None, sendFunc = None, echoFunc = None,
               rmFunc = None, hbFunc = None, pkFunc = None, key = None\<rparr>;
          r = nextRef w
      in (r, w\<lparr>heap := (heap w)(r \<mapsto> c), nextRef := Suc r\<rparr>))"

definition onClose :: "ref \<Rightarrow> string \<Rightarrow> world \<Rightarrow> world" where
  "onClose r cb = modify r (\<lambda>c. c\<lparr>closeFunc := Some cb\<rparr>)"

definition onError :: "ref \<Rightarrow> string \<Rightarrow> world \<Rightarrow> world" where
  "onError r cb = modify r (\<lambda>c. c\<lparr>errFunc := Some cb\<rparr>)"

definition onSend :: "ref \<Rightarrow> handler \<Rightarrow> world \<Rightarrow> world" where
  "onSend r cb = modify r (\<lambda>c. c\<lparr>sendFunc := Some cb\<rparr>)"

definition onEcho :: "ref \<Rightarrow> handler \<Rightarrow> world \<Rightarrow> world" where
  "onEcho r cb = modify r (\<lambda>c. c\<lparr>echoFunc := Some cb\<rparr>)"

definition onRemove :: "ref \<Rightarrow> handler \<Rightarrow> world \<Rightarrow> world" where
  "onRemove r cb = modify r (\<lambda>c. c\<lparr>rmFunc := Some cb\<rparr>)"

definition onHeart :: "ref \<Rightarrow> handler \<Rightarrow> world \<Rightarrow> world" where
  "onHeart r cb = modify r (\<lambda>c. c\<lparr>hbFunc := Some cb\<rparr>)"

definition onPack :: "ref \<Rightarrow> (string \<Rightarrow> pack_result) \<Rightarrow> world \<Rightarrow> world" where
  "onPack r cb = modify r (\<lambda>c. c\<lparr>pkFunc := Some cb\<rparr>)"

subsection \<open>Sending\<close>

text \<open>The function \<open>_send\<close> hands to the pack hook. It reads \<open>this.errFunc\<close> and
  \<open>this.resp\<close>, so what it does depends on the receiver the hook calls it with: only
  with the connection as receiver does it reach the transport.\<close>

definition pack_continuation ::
  "string \<Rightarrow> string \<Rightarrow> receiver \<Rightarrow> string option \<Rightarrow> string \<Rightarrow> world \<Rightarrow> unit res" where
  "pack_continuation prefix contentType this err data w =
     (if truthy err then
        (case this of
           ThisComet r \<Rightarrow>
             (case heap w r of
                None \<Rightarrow> throw no_object w
              | Some c \<Rightarrow>
                  (case errFunc c of
                     None \<Rightarrow> throw (not_a_function ''this.errFunc'') w
                   | Some f \<Rightarrow> ok () (emit (ErrorCalled r f (prop_key err)) w)))
         | ThisEmitter \<Rightarrow> throw (not_a_function ''this.errFunc'') w
         | ThisUndefined \<Rightarrow> throw no_object w)
      else
        (let w1 = emit (Console ''comet push msg :'') w
         in case this of
              ThisComet r \<Rightarrow> ok () (emit (Write r (bufAll prefix contentType data)) w1)
            | ThisEmitter \<Rightarrow> throw no_object w1
            | ThisUndefined \<Rightarrow> throw no_object w1))"

text \<open>\<open>stringify\<close> is \<open>JSON.stringify\<close>.\<close>

definition u_send ::
  "(msg \<Rightarrow> string) \<Rightarrow> ref \<Rightarrow> msg \<Rightarrow> string option \<Rightarrow> string option \<Rightarrow> world \<Rightarrow> unit res" where
  "u_send stringify r m prefix contentType w =
     (case heap w r of
        None \<Rightarrow> throw no_object w
      | Some c \<Rightarrow>
          (let prefix' = (if \<not> truthy prefix then [] else prop_key prefix);
               contentType' = (if \<not> truthy contentType then SEND_CONTENT_TYPE_APP
                               else prop_key contentType);
               msgStr = stringify m
           in case pkFunc c of
                Some pk \<Rightarrow>
                  (case pk msgStr of
                     NoReply \<Rightarrow> ok () w
                   | Reply this err data \<Rightarrow> pack_continuation prefix' contentType' this err data w)
              | None \<Rightarrow>
                  ok () (emit (Write r (bufAll prefix' contentType' msgStr))
                          (emit (Console ''comet push msg :'') w))))"

text \<open>The older file's \<open>_send\<close>; \<open>aesEnc\<close> is \<open>aes.aesEnc\<close>, whose module is not part of
  the sources.\<close>

definition u_send_aes ::
  "(msg \<Rightarrow> string) \<Rightarrow> (string \<Rightarrow> string) \<Rightarrow> ref \<Rightarrow> msg \<Rightarrow> string option \<Rightarrow> string option \<Rightarrow>
   world \<Rightarrow> unit res" where
  "u_send_aes stringify aesEnc r m prefix contentType w =
     (case heap w r of
        None \<Rightarrow> throw no_object w
      | Some c \<Rightarrow>
          (let prefix' = (if \<not> truthy prefix then [] else prop_key prefix);
               contentType' = (if \<not> truthy contentType then SEND_CONTENT_TYPE_APP
                               else prop_key contentType);
               msgStr = stringify m;
               msgEnc = aesEnc msgStr
           in ok () (emit (Write r (bufAll_aes prefix' contentType' msgEnc))
                      (emit (Console ''comet push msg :'') w))))"

subsection \<open>Closing\<close>

definition u_close :: "ref \<Rightarrow> close_code option \<Rightarrow> world \<Rightarrow> unit res" where
  "u_close r reason w =
     (case heap w r of
        None \<Rightarrow> throw no_object w
      | Some c \<Rightarrow>
          (let reason' = (case reason of None \<Rightarrow> CLOSE_COMPEL | Some x \<Rightarrow> x)
           in case closeFunc c of
                None \<Rightarrow> throw (not_a_function ''this.closeFunc'') w
              | Some f \<Rightarrow> ok () (emit (End r) (emit (CloseCalled r f reason' ''closed by server'') w))))"

definition u_error :: "ref \<Rightarrow> string \<Rightarrow> world \<Rightarrow> unit res" where
  "u_error r err w =
     (case heap w r of
        None \<Rightarrow> throw no_object w
      | Some c \<Rightarrow>
          (case errFunc c of
             Some f \<Rightarrow> ok () (emit (ErrorCalled r f err) w)
           | None \<Rightarrow> ok () w))"

definition u_remove :: "ref \<Rightarrow> world \<Rightarrow> unit res" where
  "u_remove r w =
     (case heap w r of
        None \<Rightarrow> throw no_object w
      | Some c \<Rightarrow>
          (let w1 = (if timeId c \<noteq> 0
                     then modify r (\<lambda>c. c\<lparr>timeId := 0\<rparr>) (clearTimeout_js (timeId c) w)
                     else w)
           in case rmFunc c of
                Some h \<Rightarrow> ok () (apply_rmFunc h (id_c c) (emit (RemoveCalled r h (id_c c)) w1))
              | None \<Rightarrow> ok () w1))"

definition del :: "ref \<Rightarrow> world \<Rightarrow> unit res" where
  "del r w =
     (case heap w r of
        None \<Rightarrow> throw no_object w
      | Some c \<Rightarrow>
          if closeFlag c then
            ok () (emit (Console ''Compel close duplicate, last close reason'') w)
          else
            andThen
              (u_close r None
                 (modify r (\<lambda>c. c\<lparr>closeFlag := True, closeReason := Some CLOSE_COMPEL\<rparr>) w))
              (u_remove r))"

text \<open>The listener \<open>start\<close> attaches to the transport's \<open>close\<close> event.\<close>

definition peer_close_cb :: "ref \<Rightarrow> world \<Rightarrow> unit res" where
  "peer_close_cb r w =
     (case heap w r of
        None \<Rightarrow> throw no_object w
      | Some c \<Rightarrow>
          if closeFlag c then
            ok () (emit (Console ''peer close duplicate, last close reason'') w)
          else
            (let w1 = modify r (\<lambda>c. c\<lparr>closeFlag := True, closeReason := Some CLOSE_PEER\<rparr>) w
             in case closeFunc c of
                  None \<Rightarrow> throw (not_a_function ''self.closeFunc'') w1
                | Some f \<Rightarrow> u_remove r (emit (CloseCalled r f CLOSE_PEER ''closed by peer'') w1)))"

subsection \<open>The liveness timer\<close>

text \<open>The function \<open>_setTimeOut\<close> hands to \<open>setTimeout\<close>.\<close>

definition timeout_cb :: "ref \<Rightarrow> world \<Rightarrow> unit res" where
  "timeout_cb r w =
     (case heap w r of
        None \<Rightarrow> throw no_object w
      | Some c \<Rightarrow>
          if closeFlag c then
            ok () (emit (Console ''Timeout close duplicate, last close reason'') w)
          else
            (let w1 = modify r (\<lambda>c. c\<lparr>closeFlag := True, closeReason := Some CLOSE_TIMEOUT,
                                       timeId := 0\<rparr>) w
             in andThen (u_error r ''Get next ping timeout.'' w1)
                  (\<lambda>w2. andThen (u_close r (Some CLOSE_TIMEOUT) w2) (u_remove r))))"

definition u_setTimeOut :: "ref \<Rightarrow> int \<Rightarrow> world \<Rightarrow> unit res" where
  "u_setTimeOut r msec w =
     (case heap w r of
        None \<Rightarrow> throw no_object w
      | Some c \<Rightarrow>
          (let w1 = (if timeId c \<noteq> 0
                     then modify r (\<lambda>c. c\<lparr>timeId := 0\<rparr>) (clearTimeout_js (timeId c) w)
                     else w);
               (h, w2) = setTimeout_js r msec w1
           in ok () (modify r (\<lambda>c. c\<lparr>timeId := h\<rparr>) w2)))"

text \<open>The runtime fires a pending timer: the handle leaves the pending set and the
  function it was armed with runs. A handle that is not pending fires nothing.\<close>

definition fire_timer :: "nat \<Rightarrow> world \<Rightarrow> unit res" where
  "fire_timer h w =
     (case timers w h of
        None \<Rightarrow> ok () w
      | Some (r, msec) \<Rightarrow> timeout_cb r (w\<lparr>timers := (timers w)(h := None)\<rparr>))"

subsection \<open>The public operations\<close>

definition connectOK :: msg where
  "connectOK = \<lparr>msg_sid = None, msg_interval = None, msg_fields = [(''cmd_echo'', ''connectOK'')]\<rparr>"

definition start :: "(msg \<Rightarrow> string) \<Rightarrow> ref \<Rightarrow> world \<Rightarrow> unit res" where
  "start stringify r w =
     (case heap w r of
        None \<Rightarrow> throw no_object w
      | Some c \<Rightarrow>
          (let w1 = emit (WriteHead r 200 CONTENT_TYPE ''close'') (emit (ReqSetTimeout r) w)
           in andThen
                (u_send stringify r connectOK (Some (''--ctalk_boundary'' @ CRLF))
                   (Some SEND_CONTENT_TYPE_DEV) w1)
                (\<lambda>w2. u_setTimeOut r (loopTimeout c) (emit (RespOnClose r) w2))))"

text \<open>The listener \<open>sendMsg\<close> attaches to the emitter of a transaction. An emitter calls
  its listeners with itself as receiver, and an \<open>EventEmitter\<close> object has no property
  \<open>id\<close>: that is what \<open>this.id\<close> reads in the listener.\<close>

definition emitter_id :: "emitter \<Rightarrow> string option" where
  "emitter_id this = None"

definition echo_listener ::
  "ref \<Rightarrow> string \<Rightarrow> string option \<Rightarrow> emitter \<Rightarrow> msg \<Rightarrow> world \<Rightarrow> unit res" where
  "echo_listener self sid echoCb this echoMsg w =
     (case echoCb of
        None \<Rightarrow> throw (not_a_function ''echoCb'') w
      | Some f \<Rightarrow>
          (case heap w self of
             None \<Rightarrow> throw no_object w
           | Some c \<Rightarrow>
               (let w1 = emit (EchoCbCalled self f echoMsg (map fst (eventPool c))) w;
                    w2 = modify self
                           (\<lambda>c. c\<lparr>eventPool := AList.delete (prop_key (msg_sid echoMsg)) (eventPool c)\<rparr>)
                           w1
                in case echoFunc c of
                     Some h \<Rightarrow>
                       ok () (apply_echoFunc h sid
                                (emit (EchoCalled self h (emitter_id this) sid echoMsg) w2))
                   | None \<Rightarrow> ok () w2)))"

text \<open>\<open>echoEvent.emit('echo', msg)\<close>: the listeners run in the order they were attached; an
  exception of one ends the emission.\<close>

fun emit_echo :: "ref \<Rightarrow> emitter \<Rightarrow> listener list \<Rightarrow> msg \<Rightarrow> world \<Rightarrow> unit res" where
  "emit_echo self this [] m w = ok () w"
| "emit_echo self this (EchoListener sid echoCb # ls) m w =
     (case echo_listener self sid echoCb this m w of
        (Inl e, w') \<Rightarrow> (Inl e, w')
      | (Inr _, w') \<Rightarrow> emit_echo self this ls m w')"

text \<open>\<open>sid\<close> is what \<open>uuid.v4()\<close> returns. The emitter is stored before the frame is
  sent, its listener is attached after.\<close>

definition sendMsg ::
  "(msg \<Rightarrow> string) \<Rightarrow> ref \<Rightarrow> msg \<Rightarrow> string option \<Rightarrow> string option \<Rightarrow> string \<Rightarrow> world \<Rightarrow> unit res"
  where
  "sendMsg stringify r m contentType echoCb sid w =
     (case heap w r of
        None \<Rightarrow> throw no_object w
      | Some c \<Rightarrow>
          (let m' = m\<lparr>msg_sid := Some sid\<rparr>;
               w1 = modify r (\<lambda>c. c\<lparr>eventPool := AList.update sid [] (eventPool c)\<rparr>) w;
               w2 = (case sendFunc c of
                       Some h \<Rightarrow> apply_sendFunc h (id_c c) sid (emit (SendCalled r h (id_c c) sid m') w1)
                     | None \<Rightarrow> w1);
               contentType' = (if \<not> truthy contentType then Some SEND_CONTENT_TYPE_APP
                               else contentType)
           in andThen (u_send stringify r m' (Some []) contentType' w2)
                (\<lambda>w3. ok () (modify r
                   (\<lambda>c. c\<lparr>eventPool :=
                            (case map_of (eventPool c) sid of
                               Some echoEvent \<Rightarrow>
                                 AList.update sid (echoEvent @ [EchoListener sid echoCb]) (eventPool c)
                             | None \<Rightarrow> eventPool c)\<rparr>)
                   w3))))"

definition directSend :: "(msg \<Rightarrow> string) \<Rightarrow> ref \<Rightarrow> msg \<Rightarrow> world \<Rightarrow> unit res" where
  "directSend stringify r m w = u_send stringify r m None None w"

definition echoMsg :: "ref \<Rightarrow> msg \<Rightarrow> world \<Rightarrow> unit res" where
  "echoMsg r m w =
     (case heap w r of
        None \<Rightarrow> throw no_object w
      | Some c \<Rightarrow>
          (let sid = msg_sid m
           in case map_of (eventPool c) (prop_key sid) of
                Some echoEvent \<Rightarrow> emit_echo r echoEvent echoEvent m w
              | None \<Rightarrow> ok () (emit (Console ''event for not found'') w)))"

text \<open>\<open>_send\<close> leaves the connection's fields as they are, so the delay the timer is armed
  with is the \<open>loopTimeout\<close> just computed.\<close>

definition pongMsg ::
  "(msg \<Rightarrow> string) \<Rightarrow> nat \<Rightarrow> ref \<Rightarrow> msg \<Rightarrow> string option \<Rightarrow> world \<Rightarrow> unit res" where
  "pongMsg stringify now r m contentType w =
     (case heap w r of
        None \<Rightarrow> throw no_object w
      | Some c \<Rightarrow>
          (let interval = msg_interval m;
               loopTimeout' = (case interval of
                                 Some i \<Rightarrow> if i > 0 then i * 2000 else loopTimeout c
                               | None \<Rightarrow> loopTimeout c);
               w1 = modify r (\<lambda>c. c\<lparr>loopTimeout := loopTimeout'\<rparr>) w
           in andThen (u_send stringify r m (Some []) contentType w1)
                (\<lambda>w2. andThen (u_setTimeOut r loopTimeout' w2)
                   (\<lambda>w3. case hbFunc c of
                            Some h \<Rightarrow> apply_hbFunc h r now (emit (HeartCalled r h) w3)
                          | None \<Rightarrow> ok () w3))))"

section \<open>The registry\<close>

text \<open>\<open>fresh\<close> is the id \<open>uuid.v4()\<close> would give the new connection.\<close>

definition createComet :: "string option \<Rightarrow> string \<Rightarrow> world \<Rightarrow> ref res" where
  "createComet cid fresh w =
     andThen
       (if truthy cid then
          (case map_of (comets w) (prop_key cid) of
             Some old \<Rightarrow> del old w
           | None \<Rightarrow> ok () w)
        else ok () w)
       (\<lambda>w1. let (comet, w2) = new_Comet cid fresh w1;
                  w3 = (case heap w2 comet of
                          Some c \<Rightarrow> w2\<lparr>comets := AList.update (id_c c) comet (comets w2)\<rparr>
                        | None \<Rightarrow> w2)
              in ok comet (onHeart comet Mgr (onRemove comet Mgr (onEcho comet Mgr (onSend comet Mgr w3)))))"

definition getComet :: "string \<Rightarrow> world \<Rightarrow> ref option" where
  "getComet cid w = map_of (comets w) cid"

text \<open>\<open>now\<close> is what \<open>Date.now()\<close> returns.\<close>

definition mapComet :: "string \<Rightarrow> string \<Rightarrow> nat \<Rightarrow> world \<Rightarrow> world" where
  "mapComet k cid now w =
     (let elem = (case map_of (keyMap w) k of
                    None \<Rightarrow> \<lparr>k_cid = [], visits = 0, lastVisit = now, alive = now\<rparr>
                  | Some e \<Rightarrow> e);
          w1 = w\<lparr>keyMap := AList.update k
                  (elem\<lparr>k_cid := cid, visits := visits elem + 1, lastVisit := now\<rparr>) (keyMap w)\<rparr>
      in case map_of (comets w1) cid of
           Some r \<Rightarrow> modify r (\<lambda>c. c\<lparr>key := Some k\<rparr>) w1
         | None \<Rightarrow> w1)"

definition getCometBySendId :: "string \<Rightarrow> world \<Rightarrow> ref option" where
  "getCometBySendId sid w =
     (case map_of (sendIds w) sid of
        None \<Rightarrow> None
      | Some cid \<Rightarrow> if cid = [] then None else map_of (comets w) cid)"

text \<open>A registry with nothing in it, and a runtime with no timer pending.\<close>

definition empty_world :: world where
  "empty_world =
     \<lparr>heap = Map.empty, nextRef = 0, comets = [], sendIds = [], keyMap = [],
      timers = Map.empty, nextTimer = 0, trace = []\<rparr>"

section \<open>Sequences of calls and observations on the trace\<close>

text \<open>The three close triggers and the function each of them runs: the transport's
  \<open>close\<close> event runs the listener of \<open>start\<close>, the expiry of the timer runs the function
  \<open>_setTimeOut\<close> armed it with, the registry (or any holder) calls \<open>del\<close>.\<close>

datatype trigger = PeerDisconnect | TimerExpiry | Del

definition fire :: "ref \<Rightarrow> trigger \<Rightarrow> world \<Rightarrow> unit res" where
  "fire r t w =
     (case t of
        PeerDisconnect \<Rightarrow> peer_close_cb r w
      | TimerExpiry \<Rightarrow> timeout_cb r w
      | Del \<Rightarrow> del r w)"

text \<open>Triggers arrive in separate turns of the event loop: whatever one of them returns
  or throws, the next one runs in the world it left.\<close>

fun fire_all :: "ref \<Rightarrow> trigger list \<Rightarrow> world \<Rightarrow> world" where
  "fire_all r [] w = w"
| "fire_all r (t # ts) w = fire_all r ts (snd (fire r t w))"

text \<open>The diagnostic each trigger logs when it finds \<open>closeFlag\<close> set.\<close>

definition duplicate_text :: "trigger \<Rightarrow> string" where
  "duplicate_text t =
     (case t of
        PeerDisconnect \<Rightarrow> ''peer close duplicate, last close reason''
      | TimerExpiry \<Rightarrow> ''Timeout close duplicate, last close reason''
      | Del \<Rightarrow> ''Compel close duplicate, last close reason'')"

fun is_CloseCalled :: "ref \<Rightarrow> event \<Rightarrow> bool" where
  "is_CloseCalled r (CloseCalled r' f code m) = (r' = r)"
| "is_CloseCalled r _ = False"

fun is_RemoveCalled :: "ref \<Rightarrow> event \<Rightarrow> bool" where
  "is_RemoveCalled r (RemoveCalled r' h cid) = (r' = r)"
| "is_RemoveCalled r _ = False"

fun is_EchoCbCalled :: "event \<Rightarrow> bool" where
  "is_EchoCbCalled (EchoCbCalled r f m ks) = True"
| "is_EchoCbCalled _ = False"

definition close_calls :: "ref \<Rightarrow> world \<Rightarrow> nat" where
  "close_calls r w = length (filter (is_CloseCalled r) (trace w))"

definition remove_calls :: "ref \<Rightarrow> world \<Rightarrow> nat" where
  "remove_calls r w = length (filter (is_RemoveCalled r) (trace w))"

text \<open>The frames written to a connection's transport, in order.\<close>

fun writes :: "ref \<Rightarrow> event list \<Rightarrow> string list" where
  "writes r [] = []"
| "writes r (Write r' fr # es) = (if r' = r then fr # writes r es else writes r es)"
| "writes r (e # es) = writes r es"




text \<open>The heartbeat closure of the registry can run: the key stamped on the connection
  has its \<open>keyMap\<close> entry.\<close>

definition hb_can_run :: "world \<Rightarrow> comet \<Rightarrow> bool" where
  "hb_can_run w c =
     (case hbFunc c of
        Some Mgr \<Rightarrow> if truthy (key c) then map_of (keyMap w) (prop_key (key c)) \<noteq> None else True
      | _ \<Rightarrow> True)"

section \<open>The frame as the specification words it\<close>

text \<open>Optional prefix, the content type line, the content length line, an empty line, the
  payload, and the boundary; \<open>n\<close> is the number the length line shows.\<close>

definition spec_frame :: "string \<Rightarrow> string \<Rightarrow> nat \<Rightarrow> string \<Rightarrow> string" where
  "spec_frame prefix contentType n payload =
     prefix @
     ''Content-Type: '' @ contentType @ CRLF @
     ''Content-Length: '' @ decimal n @ CRLF @
     CRLF @
     payload @
     CRLF @ ''--ctalk_boundary''"

text \<open>The same with the two header lines of the older file after the length line.\<close>

definition spec_frame_p2p :: "string \<Rightarrow> string \<Rightarrow> nat \<Rightarrow> string \<Rightarrow> string" where
  "spec_frame_p2p prefix contentType n payload =
     prefix @
     ''Content-Type: '' @ contentType @ CRLF @
     ''Content-Length: '' @ decimal n @ CRLF @
     ''X-Address: '' @ CRLF @
     ''X-Remote-Address: '' @ CRLF @
     CRLF @
     payload @
     CRLF @ ''--ctalk_boundary''"

section \<open>Concrete worlds\<close>

definition demo_stringify :: "msg \<Rightarrow> string" where
  "demo_stringify m = ''{}''"

definition demo_msg :: msg where
  "demo_msg = \<lparr>msg_sid = None, msg_interval = None, msg_fields = []\<rparr>"

definition demo_echo :: msg where
  "demo_echo = \<lparr>msg_sid = Some ''s1'', msg_interval = None, msg_fields = [(''y'', ''2'')]\<rparr>"

definition demo_ping :: msg where
  "demo_ping = \<lparr>msg_sid = None, msg_interval = Some 30, msg_fields = []\<rparr>"

text \<open>A connection \<open>c1\<close> made by the constructor alone, at address \<open>0\<close>.\<close>

definition demo_bare :: world where
  "demo_bare = snd (new_Comet (Some ''c1'') ''u1'' empty_world)"

text \<open>The same with a removal observer but no close callback.\<close>

definition demo_no_onClose :: world where
  "demo_no_onClose = onRemove 0 (User ''rm'') demo_bare"

text \<open>The same with every observer of the user registered.\<close>

definition demo_observed :: world where
  "demo_observed =
     onHeart 0 (User ''hb'') (onRemove 0 (User ''rm'') (onEcho 0 (User ''echo'')
       (onSend 0 (User ''send'') (onError 0 ''err'' (onClose 0 ''close'' demo_bare)))))"

text \<open>After \<open>sendMsg(demo_msg, undefined, cb)\<close> on it, with transaction id \<open>s1\<close>.\<close>

definition demo_sent :: world where
  "demo_sent = snd (sendMsg demo_stringify 0 demo_msg None (Some ''cb'') ''s1'' demo_observed)"

text \<open>A connection \<open>dev1\<close> made by the registry, with a close callback, at address \<open>0\<close>.\<close>

definition demo_managed :: world where
  "demo_managed = onClose 0 ''close'' (snd (createComet (Some ''dev1'') ''u1'' empty_world))"

text \<open>The connection object of \<open>demo_observed\<close>.\<close>

definition demo_comet :: comet where
  "demo_comet =
     \<lparr>id_c = ''c1'', eventPool = [], loopTimeout = 300000, timeId = 0,
      closeReason = None, closeFlag = False,
      closeFunc = Some ''close'', errFunc = Some ''err'', sendFunc = Some (User ''send''),
      echoFunc = Some (User ''echo''), rmFunc = Some (User ''rm''), hbFunc = Some (User ''hb''),
      pkFunc = None, key = None\<rparr>"

text \<open>After \<open>start\<close> on it, and after \<open>del\<close> on the started connection.\<close>

definition demo_started :: world where
  "demo_started = snd (start demo_stringify 0 demo_observed)"

definition demo_closed :: world where
  "demo_closed = snd (del 0 demo_started)"

text \<open>The value \<open>pongMsg\<close> leaves in \<open>loopTimeout\<close> for a ping message.\<close>

definition next_loopTimeout :: "comet \<Rightarrow> msg \<Rightarrow> int" where
  "next_loopTimeout c m =
     (case msg_interval m of
        Some i \<Rightarrow> if i > 0 then i * 2000 else loopTimeout c
      | None \<Rightarrow> loopTimeout c)"

text \<open>The payload after the optional transform: the JSON text itself without a pack hook,
  otherwise the data the hook replies with (nothing when it does not reply).\<close>

definition transformed_payload :: "comet \<Rightarrow> string \<Rightarrow> string" where
  "transformed_payload c msgStr =
     (case pkFunc c of
        None \<Rightarrow> msgStr
      | Some pk \<Rightarrow> (case pk msgStr of NoReply \<Rightarrow> [] | Reply this err data \<Rightarrow> data))"

text \<open>The connection object of \<open>demo_managed\<close>, and the world after a \<open>sendMsg\<close> on it.\<close>

definition demo_managed_comet :: comet where
  "demo_managed_comet =
     \<lparr>id_c = ''dev1'', eventPool = [], loopTimeout = 300000, timeId = 0,
      closeReason = None, closeFlag = False,
      closeFunc = Some ''close'', errFunc = None, sendFunc = Some Mgr,
      echoFunc = Some Mgr, rmFunc = Some Mgr, hbFunc = Some Mgr,
      pkFunc = None, key = None\<rparr>"

definition demo_managed_sent :: world where
  "demo_managed_sent =
     snd (sendMsg demo_stringify 0 demo_msg None (Some ''cb'') ''s1'' demo_managed)"

text \<open>The value of a decimal digit, to read back what \<open>decimal\<close> writes.\<close>

definition digit_val :: "char \<Rightarrow> nat" where
  "digit_val ch = of_char ch - 48"

text \<open>At most one timer per connection: every pending handle was handed out by the
  runtime and is the one its connection holds in \<open>timeId\<close>.\<close>

definition one_timer :: "world \<Rightarrow> bool" where
  "one_timer w =
     (\<forall>h r m. timers w h = Some (r, m) \<longrightarrow>
        0 < h \<and> h \<le> nextTimer w \<and> (\<exists>c. heap w r = Some c \<and> timeId c = h))"

text \<open>A ping whose interval, doubled and in milliseconds, is beyond the largest delay
  of the runtime: \<open>1073742 * 2000 = 2147484000\<close>.\<close>

definition demo_ping_long :: msg where
  "demo_ping_long = \<lparr>msg_sid = None, msg_interval = Some 1073742, msg_fields = []\<rparr>"

section \<open>Basic facts\<close>

lemmas comet_defs =
  ok_def throw_def andThen_def emit_def modify_def no_object_def not_a_function_def
  truthy_def prop_key_def TIMEOUT_MAX_def timer_delay_def setTimeout_js_def
  clearTimeout_js_def
  u_regSendId_def u_unregSendId_def u_deleteComet_def apply_sendFunc_def apply_echoFunc_def
  apply_rmFunc_def apply_hbFunc_def new_Comet_def onClose_def onError_def onSend_def onEcho_def
  onRemove_def onHeart_def onPack_def pack_continuation_def u_send_def u_close_def u_error_def
  u_remove_def del_def peer_close_cb_def timeout_cb_def u_setTimeOut_def fire_timer_def
  start_def echo_listener_def sendMsg_def directSend_def echoMsg_def pongMsg_def createComet_def
  empty_world_def emitter_id_def fire_def Let_def

lemmas demo_defs =
  demo_stringify_def demo_msg_def demo_echo_def demo_ping_def demo_bare_def demo_no_onClose_def
  demo_observed_def demo_sent_def demo_managed_def demo_started_def demo_closed_def
  demo_managed_sent_def demo_ping_long_def

lemma heap_emit: "heap (emit e w) = heap w"
  by (simp add: emit_def)

lemma heap_u_deleteComet: "heap (u_deleteComet cid w) = heap w"
  by (simp add: u_deleteComet_def Let_def)

lemma trace_u_deleteComet: "trace (u_deleteComet cid w) = trace w"
  by (simp add: u_deleteComet_def Let_def)

lemma heap_apply_rmFunc: "heap (apply_rmFunc h cid w) = heap w"
  by (cases h) (simp_all add: apply_rmFunc_def heap_u_deleteComet)

lemma trace_apply_rmFunc: "trace (apply_rmFunc h cid w) = trace w"
  by (cases h) (simp_all add: apply_rmFunc_def trace_u_deleteComet)

subsection \<open>Close triggers\<close>

lemma fire_closed:
  "heap w r = Some c \<Longrightarrow> closeFlag c \<Longrightarrow>
   fire r t w = (Inr (), emit (Console (duplicate_text t)) w)"
  by (cases t)
     (simp_all add: fire_def peer_close_cb_def timeout_cb_def del_def ok_def duplicate_text_def)

lemma fire_open:
  assumes "heap w r = Some c" "\<not> closeFlag c" "closeFunc c = Some f"
  shows "fst (fire r t w) = Inr () \<and>
         (\<exists>c'. heap (snd (fire r t w)) r = Some c' \<and> closeFlag c') \<and>
         close_calls r (snd (fire r t w)) = close_calls r w + 1 \<and>
         remove_calls r (snd (fire r t w)) =
           remove_calls r w + (case rmFunc c of None \<Rightarrow> 0 | Some h \<Rightarrow> 1)"
  using assms
  by (cases t)
     (simp_all add: fire_def peer_close_cb_def timeout_cb_def del_def ok_def throw_def andThen_def
        u_close_def u_error_def u_remove_def modify_def emit_def clearTimeout_js_def Let_def
        close_calls_def remove_calls_def heap_apply_rmFunc trace_apply_rmFunc
        split: option.splits)

lemma fire_all_closed:
  "heap w r = Some c \<Longrightarrow> closeFlag c \<Longrightarrow>
   fire_all r ts w = foldl (\<lambda>w' t'. emit (Console (duplicate_text t')) w') w ts"
proof (induction ts arbitrary: w)
  case Nil
  then show ?case by simp
next
  case (Cons t ts)
  have "fire r t w = (Inr (), emit (Console (duplicate_text t)) w)"
    using Cons.prems by (rule fire_closed)
  moreover have "heap (emit (Console (duplicate_text t)) w) r = Some c"
    using Cons.prems by (simp add: heap_emit)
  ultimately show ?case using Cons.IH Cons.prems by simp
qed

lemma close_calls_console: "close_calls r (emit (Console s) w) = close_calls r w"
  by (simp add: close_calls_def emit_def)

lemma remove_calls_console: "remove_calls r (emit (Console s) w) = remove_calls r w"
  by (simp add: remove_calls_def emit_def)

lemma close_calls_foldl:
  "close_calls r (foldl (\<lambda>w' t'. emit (Console (duplicate_text t')) w') w ts) = close_calls r w"
  by (induction ts arbitrary: w) (simp_all add: close_calls_console)

lemma remove_calls_foldl:
  "remove_calls r (foldl (\<lambda>w' t'. emit (Console (duplicate_text t')) w') w ts) = remove_calls r w"
  by (induction ts arbitrary: w) (simp_all add: remove_calls_console)

lemma demo_observed_heap: "heap demo_observed 0 = Some demo_comet"
  by (simp add: demo_defs demo_comet_def comet_defs)

lemma timers_u_deleteComet: "timers (u_deleteComet cid w) = timers w"
  by (simp add: u_deleteComet_def Let_def)

lemma timers_apply_rmFunc: "timers (apply_rmFunc h cid w) = timers w"
  by (cases h) (simp_all add: apply_rmFunc_def timers_u_deleteComet)

subsection \<open>Heartbeats\<close>

lemma heap_apply_hbFunc: "heap (snd (apply_hbFunc g r now w)) = heap w"
  by (simp add: apply_hbFunc_def ok_def throw_def split: handler.splits option.splits)

lemma timers_apply_hbFunc: "timers (snd (apply_hbFunc g r now w)) = timers w"
  by (simp add: apply_hbFunc_def ok_def throw_def split: handler.splits option.splits)

lemma trace_apply_hbFunc: "trace (snd (apply_hbFunc g r now w)) = trace w"
  by (simp add: apply_hbFunc_def ok_def throw_def split: handler.splits option.splits)

lemma pongMsg_heap:
  assumes "heap w r = Some c" and "pkFunc c = None"
  shows "heap (snd (pongMsg js now r m ct w)) r =
           Some (c\<lparr>loopTimeout := next_loopTimeout c m, timeId := Suc (nextTimer w)\<rparr>)"
  using assms
  by (simp add: pongMsg_def u_send_def u_setTimeOut_def setTimeout_js_def clearTimeout_js_def
      ok_def andThen_def modify_def emit_def Let_def heap_apply_hbFunc next_loopTimeout_def
      split: option.splits)

lemma pongMsg_timers:
  assumes "heap w r = Some c" and "pkFunc c = None"
  shows "timers (snd (pongMsg js now r m ct w)) (Suc (nextTimer w)) =
           Some (r, timer_delay (next_loopTimeout c m))"
  using assms
  by (simp add: pongMsg_def u_send_def u_setTimeOut_def setTimeout_js_def clearTimeout_js_def
      ok_def andThen_def modify_def emit_def Let_def timers_apply_hbFunc next_loopTimeout_def
      split: option.splits)

lemma pongMsg_trace:
  assumes "heap w r = Some c" and "pkFunc c = None"
  shows "trace (snd (pongMsg js now r m ct w)) =
           trace w @
           [Console ''comet push msg :'',
            Write r (bufAll [] (if truthy ct then prop_key ct else SEND_CONTENT_TYPE_APP) (js m))] @
           (case hbFunc c of Some g \<Rightarrow> [HeartCalled r g] | None \<Rightarrow> [])"
  using assms
  by (simp add: pongMsg_def u_send_def u_setTimeOut_def setTimeout_js_def clearTimeout_js_def
      ok_def andThen_def modify_def emit_def Let_def trace_apply_hbFunc truthy_def
      split: option.splits)

lemma pongMsg_returns:
  assumes "heap w r = Some c" and "pkFunc c = None" and "hb_can_run w c"
  shows "fst (pongMsg js now r m ct w) = Inr ()"
  using assms
  by (auto simp add: pongMsg_def u_send_def u_setTimeOut_def setTimeout_js_def
      clearTimeout_js_def ok_def throw_def andThen_def modify_def emit_def Let_def
      apply_hbFunc_def hb_can_run_def
      split: option.splits handler.splits if_splits)



subsection \<open>The timer's function\<close>

lemma timeout_cb_closed:
  "heap w r = Some c \<Longrightarrow> closeFlag c \<Longrightarrow>
   timeout_cb r w = (Inr (), emit (Console ''Timeout close duplicate, last close reason'') w)"
  by (simp add: timeout_cb_def ok_def)

lemma demo_started_heap: "heap demo_started 0 = Some (demo_comet\<lparr>timeId := 1\<rparr>)"
  by (simp add: demo_defs demo_comet_def comet_defs)

lemma demo_started_timers: "timers demo_started = Map.empty(1 \<mapsto> (0, 300000))"
  by (simp add: demo_defs comet_defs)

lemma demo_closed_heap:
  "heap demo_closed 0 =
     Some (demo_comet\<lparr>closeFlag := True, closeReason := Some CLOSE_COMPEL\<rparr>)"
  by (simp add: demo_defs demo_comet_def comet_defs)

subsection \<open>Transactions\<close>

lemma sendMsg_plain:
  assumes "heap w r = Some c" and "sendFunc c = Some Mgr" and "pkFunc c = None"
  shows "fst (sendMsg js r m ct echoCb sid w) = Inr ()"
    and "heap (snd (sendMsg js r m ct echoCb sid w)) r =
           Some (c\<lparr>eventPool := AList.update sid [EchoListener sid echoCb] (eventPool c)\<rparr>)"
    and "sendIds (snd (sendMsg js r m ct echoCb sid w)) = AList.update sid (id_c c) (sendIds w)"
  using assms
  by (simp_all add: sendMsg_def u_send_def ok_def andThen_def modify_def emit_def Let_def
      apply_sendFunc_def u_regSendId_def AList.update_conv' split: option.splits)

lemma echoMsg_resolves:
  assumes "heap w r = Some c"
    and "map_of (eventPool c) sid = Some [EchoListener sid' (Some cb)]"
    and "msg_sid e = Some sid"
  shows "fst (echoMsg r e w) = Inr ()"
    and "trace (snd (echoMsg r e w)) =
           trace w @ [EchoCbCalled r cb e (map fst (eventPool c))] @
           (case echoFunc c of
              Some g \<Rightarrow> EchoCalled r g None sid' e #
                        (case g of Mgr \<Rightarrow> [Console ''comet: remove sender''] | User u \<Rightarrow> [])
            | None \<Rightarrow> [])"
    and "heap (snd (echoMsg r e w)) r = Some (c\<lparr>eventPool := AList.delete sid (eventPool c)\<rparr>)"
    and "sendIds (snd (echoMsg r e w)) =
           (if echoFunc c = Some Mgr then AList.delete sid' (sendIds w) else sendIds w)"
  using assms
  by (simp_all add: echoMsg_def echo_listener_def ok_def modify_def emit_def Let_def prop_key_def
      apply_echoFunc_def u_unregSendId_def emitter_id_def split: option.splits handler.splits)

lemma echoMsg_unknown:
  assumes "heap w r = Some c" and "map_of (eventPool c) (prop_key (msg_sid e)) = None"
  shows "echoMsg r e w = (Inr (), emit (Console ''event for not found'') w)"
  using assms by (simp add: echoMsg_def ok_def Let_def)

subsection \<open>Frames\<close>

lemma bufAll_spec: "bufAll p ct d = spec_frame p ct (length d) d"
  by (simp add: bufAll_def fmtHeader_def fmtTail_def spec_frame_def)

lemma bufAll_aes_spec: "bufAll_aes p ct d = spec_frame_p2p p ct (length d) d"
  by (simp add: bufAll_aes_def fmtHeader_aes_def fmtTail_def spec_frame_p2p_def)

lemma spec_frame_p2p_differs: "spec_frame_p2p p ct n d \<noteq> spec_frame p ct n d"
  by (simp add: spec_frame_p2p_def spec_frame_def CRLF_def)

lemma decimal_2: "decimal 2 = ''2''"
  by (simp add: decimal.simps digit_char_def)

subsection \<open>Replacing a connection\<close>

lemma deleteComet_loop:
  "map_of (fold (\<lambda>sid ids. if map_of ids sid = Some cid then AList.delete sid ids else ids)
             ks al) s =
     (if s \<in> set ks \<and> map_of al s = Some cid then None else map_of al s)"
  by (induction ks arbitrary: al) (auto simp add: AList.delete_conv')

lemma u_deleteComet_sendIds:
  "map_of (sendIds (u_deleteComet cid w)) s =
     (if map_of (sendIds w) s = Some cid then None else map_of (sendIds w) s)"
  by (auto simp add: u_deleteComet_def Let_def deleteComet_loop dest: map_of_SomeD
      intro: rev_image_eqI)

lemma del_open:
  assumes "heap w old = Some c" and "\<not> closeFlag c" and "closeFunc c = Some f"
    and "rmFunc c = Some Mgr"
  shows "fst (del old w) = Inr ()"
    and "trace (snd (del old w)) =
           trace w @ [CloseCalled old f CLOSE_COMPEL ''closed by server'', End old,
                      RemoveCalled old Mgr (id_c c)]"
    and "heap (snd (del old w)) =
           (heap w)(old \<mapsto> c\<lparr>closeFlag := True, closeReason := Some CLOSE_COMPEL, timeId := 0\<rparr>)"
    and "comets (snd (del old w)) = AList.delete (id_c c) (comets w)"
    and "sendIds (snd (del old w)) = sendIds (u_deleteComet (id_c c) w)"
    and "timers (snd (del old w)) =
           (if timeId c \<noteq> 0 then (timers w)(timeId c := None) else timers w)"
    and "nextRef (snd (del old w)) = nextRef w"
  using assms
  by (auto simp add: del_def u_close_def u_remove_def ok_def throw_def andThen_def modify_def
      emit_def clearTimeout_js_def Let_def apply_rmFunc_def u_deleteComet_def)

lemma filter_update_delete:
  "filter (\<lambda>kv. fst kv = k) (AList.update k v (AList.delete k al)) = [(k, v)]"
  by (induction al) (auto simp add: AList.delete_eq)

lemma createComet_after_del:
  assumes "cid \<noteq> []" and "map_of (comets w) cid = Some old" and "fst (del old w) = Inr ()"
  shows "createComet (Some cid) fresh w =
           (let w1 = snd (del old w); new = nextRef w1
            in (Inr new,
                onHeart new Mgr (onRemove new Mgr (onEcho new Mgr (onSend new Mgr
                  ((snd (new_Comet (Some cid) fresh w1))
                     \<lparr>comets := AList.update cid new (comets w1)\<rparr>))))))"
  using assms
  by (cases "del old w")
     (simp add: createComet_def andThen_def truthy_def prop_key_def new_Comet_def Let_def ok_def)

text \<open>What \<open>createComet\<close> leaves in the slots of the connection it returns.\<close>

lemma createComet_wires:
  assumes "createComet cid fresh w = (Inr r, w')"
  shows "\<exists>c. heap w' r = Some c \<and> sendFunc c = Some Mgr \<and> echoFunc c = Some Mgr \<and>
             rmFunc c = Some Mgr \<and> hbFunc c = Some Mgr \<and> pkFunc c = None \<and>
             closeFunc c = None \<and> \<not> closeFlag c"
  using assms
  by (auto simp add: createComet_def andThen_def new_Comet_def Let_def ok_def onHeart_def
      onRemove_def onEcho_def onSend_def modify_def split: prod.splits sum.splits)

lemma demo_managed_heap: "heap demo_managed 0 = Some demo_managed_comet"
  by (simp add: demo_defs demo_managed_comet_def comet_defs)

lemma demo_sent_heap:
  "heap demo_sent 0 =
     Some (demo_comet\<lparr>eventPool := [(''s1'', [EchoListener ''s1'' (Some ''cb'')])]\<rparr>)"
  by (simp add: demo_defs demo_comet_def comet_defs)

subsection \<open>The digits of a length\<close>

lemma digit_val_digit_char: "d < 10 \<Longrightarrow> digit_val (digit_char d) = d"
  by (simp add: digit_val_def digit_char_def)

text \<open>Reading the digits of \<open>decimal n\<close> in base ten gives \<open>n\<close> back.\<close>

lemma decimal_value: "foldl (\<lambda>a ch. 10 * a + digit_val ch) 0 (decimal n) = n"
proof (induction n rule: decimal.induct)
  case (1 n)
  show ?case
  proof (cases "n < 10")
    case True
    then show ?thesis
      by (subst decimal.simps) (simp add: digit_val_digit_char)
  next
    case False
    then have "foldl (\<lambda>a ch. 10 * a + digit_val ch) 0 (decimal (n div 10)) = n div 10"
      using "1.IH" by simp
    with False show ?thesis
      by (subst decimal.simps) (simp add: digit_val_digit_char)
  qed
qed

subsection \<open>At most one timer\<close>

lemma one_timerD:
  "one_timer w \<Longrightarrow> timers w h = Some (r, m) \<Longrightarrow>
   0 < h \<and> h \<le> nextTimer w \<and> (\<exists>c. heap w r = Some c \<and> timeId c = h)"
  unfolding one_timer_def by blast

lemma one_timer_empty: "one_timer empty_world"
  by (simp add: one_timer_def empty_world_def)

text \<open>Under the invariant the only timer pending for a connection is the one it holds.\<close>

lemma one_timer_unique:
  "one_timer w \<Longrightarrow> heap w r = Some c \<Longrightarrow> timers w h = Some (r, m) \<Longrightarrow> h = timeId c"
  using one_timerD [of w h r m] by auto

text \<open>Arming keeps the invariant: the timer held before is cleared, the new handle is
  fresh.\<close>

lemma u_setTimeOut_one_timer:
  assumes inv: "one_timer w" and c: "heap w r = Some c"
  shows "one_timer (snd (u_setTimeOut r msec w))"
  unfolding one_timer_def
proof (intro allI impI)
  fix h r' m
  let ?w' = "snd (u_setTimeOut r msec w)"
  assume p: "timers ?w' h = Some (r', m)"
  have nt: "nextTimer ?w' = Suc (nextTimer w)"
    using c by (simp add: u_setTimeOut_def setTimeout_js_def clearTimeout_js_def ok_def
        modify_def Let_def)
  have hp: "heap ?w' = (heap w)(r \<mapsto> c\<lparr>timeId := Suc (nextTimer w)\<rparr>)"
    using c by (auto simp add: u_setTimeOut_def setTimeout_js_def clearTimeout_js_def ok_def
        modify_def Let_def)
  have tm: "timers ?w' =
      (if timeId c \<noteq> 0 then (timers w)(timeId c := None) else timers w)
        (Suc (nextTimer w) \<mapsto> (r, timer_delay msec))"
    using c by (simp add: u_setTimeOut_def setTimeout_js_def clearTimeout_js_def ok_def
        modify_def Let_def)
  show "0 < h \<and> h \<le> nextTimer ?w' \<and> (\<exists>c'. heap ?w' r' = Some c' \<and> timeId c' = h)"
  proof (cases "h = Suc (nextTimer w)")
    case True
    with p tm have "r' = r" by simp
    with True show ?thesis by (simp add: nt hp)
  next
    case False
    with p tm have old: "timers w h = Some (r', m)"
      and ne: "timeId c \<noteq> 0 \<longrightarrow> h \<noteq> timeId c"
      by (auto split: if_splits)
    from one_timerD [OF inv old] obtain c' where
      b: "0 < h" "h \<le> nextTimer w" and c': "heap w r' = Some c'" "timeId c' = h"
      by blast
    have "r' \<noteq> r"
      using c c' ne b by auto
    with b c' show ?thesis by (simp add: nt hp)
  qed
qed

text \<open>\<open>start\<close> on a connection without a pack hook returns normally and leaves the
  connection holding a timer pending for \<open>loopTimeout\<close>.\<close>

lemma start_arms:
  assumes "heap w r = Some c" and "pkFunc c = None"
  shows "fst (start js r w) = Inr () \<and>
         heap (snd (start js r w)) r = Some (c\<lparr>timeId := Suc (nextTimer w)\<rparr>) \<and>
         timers (snd (start js r w)) (Suc (nextTimer w)) =
           Some (r, timer_delay (loopTimeout c))"
  using assms
  by (simp add: start_def u_send_def u_setTimeOut_def setTimeout_js_def clearTimeout_js_def
      ok_def andThen_def modify_def emit_def Let_def)

subsection \<open>Heartbeats keep the invariant\<close>










section \<open>Closing happens once\<close>

text \<open>
  Claim C1. Take a connection that is not closed and has a close callback registered,
  and any sequence of close triggers (peer disconnect, timer expiry, \<open>del\<close>) that starts
  with \<open>t\<close>. The first trigger returns normally; the world after the whole sequence is
  the world the first trigger left, with one console diagnostic added for each later
  trigger and nothing else changed; each later trigger returns normally; over the whole
  sequence the close callback is called exactly once, and so is the removal callback
  when one is registered.
\<close>

theorem close_side_effects_once:
  assumes "heap w r = Some c" and "\<not> closeFlag c" and "closeFunc c = Some f"
  shows "fst (fire r t w) = Inr () \<and>
         fire_all r (t # ts) w =
           foldl (\<lambda>w' t'. emit (Console (duplicate_text t')) w') (snd (fire r t w)) ts \<and>
         fire r t' (snd (fire r t w)) =
           (Inr (), emit (Console (duplicate_text t')) (snd (fire r t w))) \<and>
         close_calls r (fire_all r (t # ts) w) = close_calls r w + 1 \<and>
         remove_calls r (fire_all r (t # ts) w) =
           remove_calls r w + (case rmFunc c of None \<Rightarrow> 0 | Some h \<Rightarrow> 1)"
proof -
  from fire_open [OF assms, of t] obtain c' where
    ret: "fst (fire r t w) = Inr ()" and
    closed: "heap (snd (fire r t w)) r = Some c'" "closeFlag c'" and
    cc: "close_calls r (snd (fire r t w)) = close_calls r w + 1" and
    rc: "remove_calls r (snd (fire r t w)) =
           remove_calls r w + (case rmFunc c of None \<Rightarrow> 0 | Some h \<Rightarrow> 1)"
    by blast
  have seq: "fire_all r (t # ts) w =
      foldl (\<lambda>w' t'. emit (Console (duplicate_text t')) w') (snd (fire r t w)) ts"
    using fire_all_closed [OF closed] by simp
  have later: "fire r t' (snd (fire r t w)) =
      (Inr (), emit (Console (duplicate_text t')) (snd (fire r t w)))"
    using closed by (rule fire_closed)
  show ?thesis
    using ret seq later cc rc by (simp add: close_calls_foldl remove_calls_foldl)
qed

theorem close_side_effects_once_witness:
  "heap demo_observed 0 = Some demo_comet \<and> \<not> closeFlag demo_comet \<and>
   closeFunc demo_comet = Some ''close'' \<and> rmFunc demo_comet = Some (User ''rm'') \<and>
   close_calls 0 (fire_all 0 [PeerDisconnect, TimerExpiry, Del] demo_observed) = 1 \<and>
   remove_calls 0 (fire_all 0 [PeerDisconnect, TimerExpiry, Del] demo_observed) = 1"
proof -
  have h: "heap demo_observed 0 = Some demo_comet"
    by (rule demo_observed_heap)
  have o: "\<not> closeFlag demo_comet"
    by (simp add: demo_comet_def)
  have f: "closeFunc demo_comet = Some ''close''"
    by (simp add: demo_comet_def)
  have g: "rmFunc demo_comet = Some (User ''rm'')"
    by (simp add: demo_comet_def)
  have z: "close_calls 0 demo_observed = 0" "remove_calls 0 demo_observed = 0"
    by (simp_all add: close_calls_def remove_calls_def demo_defs comet_defs)
  have "close_calls 0 (fire_all 0 [PeerDisconnect, TimerExpiry, Del] demo_observed) =
          close_calls 0 demo_observed + 1 \<and>
        remove_calls 0 (fire_all 0 [PeerDisconnect, TimerExpiry, Del] demo_observed) =
          remove_calls 0 demo_observed +
          (case rmFunc demo_comet of None \<Rightarrow> 0 | Some h \<Rightarrow> 1)"
    using close_side_effects_once
      [OF h o f, where t = PeerDisconnect and ts = "[TimerExpiry, Del]" and t' = Del]
    by blast
  then show ?thesis using h o f g z by (simp del: fire_all.simps)
qed

section \<open>The echo observer's event\<close>

text \<open>
  Claim C8 (fails on the code). The connection \<open>c1\<close> has sent a message under transaction
  id \<open>s1\<close>; the send observer was given \<open>cid = c1\<close>. When the echo for \<open>s1\<close> arrives, the
  echo observer is called with \<open>sid = s1\<close> and the echoed message, but with \<open>cid\<close>
  undefined: the listener reads \<open>this.id\<close>, and its receiver is the emitter, not the
  connection.
\<close>

theorem echo_observer_cid_undefined:
  "map_option id_c (heap demo_sent 0) = Some ''c1'' \<and>
   hd (trace demo_sent) = SendCalled 0 (User ''send'') ''c1'' ''s1'' (demo_msg\<lparr>msg_sid := Some ''s1''\<rparr>) \<and>
   fst (echoMsg 0 demo_echo demo_sent) = Inr () \<and>
   drop (length (trace demo_sent)) (trace (snd (echoMsg 0 demo_echo demo_sent))) =
     [EchoCbCalled 0 ''cb'' demo_echo [''s1''],
      EchoCalled 0 (User ''echo'') None ''s1'' demo_echo]"
  by (simp add: demo_defs comet_defs)

section \<open>Exceptions\<close>

text \<open>
  Claim C9 (fails on the code). On a connection for which no close callback was
  registered, \<open>del\<close> throws a TypeError to its caller: \<open>_close\<close> calls \<open>closeFunc\<close> without
  the test that \<open>_error\<close> and \<open>_remove\<close> make for their callbacks (\<open>_error\<close> on the same
  connection returns normally). The flag is set by then and the removal callback has not
  run, so the connection stays in that state.
\<close>

theorem del_without_onClose_throws:
  "fst (del 0 demo_no_onClose) = Inl (TypeError ''this.closeFunc is not a function'') \<and>
   map_option closeFlag (heap (snd (del 0 demo_no_onClose)) 0) = Some True \<and>
   trace (snd (del 0 demo_no_onClose)) = [] \<and>
   u_error 0 ''Get next ping timeout.'' demo_no_onClose = (Inr (), demo_no_onClose)"
  by (simp add: demo_defs comet_defs)

section \<open>The liveness timer\<close>

text \<open>
  Claim C2. A connection that is not closed and has a close callback holds the pending
  timer \<open>h\<close>, armed for \<open>msec\<close>, and no other timer is pending for it. When the window
  passes without a heartbeat the runtime fires \<open>h\<close>. The call returns normally; the error
  observer (if one is registered) is told \<open>Get next ping timeout.\<close> first, then the close
  callback runs with \<open>CLOSE_TIMEOUT\<close> and the transport is ended, then the removal
  callback (if one is registered) runs, each once; the connection is closed with reason
  \<open>CLOSE_TIMEOUT\<close>; no timer is pending for it any more; and whenever a timer fires on
  the connection while it is closed, only a diagnostic is logged.
\<close>

theorem timeout_closes_once:
  assumes "heap w r = Some c" and "\<not> closeFlag c" and "closeFunc c = Some f"
    and "timeId c = h" and "timers w h = Some (r, msec)"
    and "\<forall>h' m. timers w h' = Some (r, m) \<longrightarrow> h' = h"
  shows "fst (fire_timer h w) = Inr () \<and>
         trace (snd (fire_timer h w)) =
           trace w @
           (case errFunc c of Some e \<Rightarrow> [ErrorCalled r e ''Get next ping timeout.''] | None \<Rightarrow> []) @
           [CloseCalled r f CLOSE_TIMEOUT ''closed by server'', End r] @
           (case rmFunc c of Some g \<Rightarrow> [RemoveCalled r g (id_c c)] | None \<Rightarrow> []) \<and>
         heap (snd (fire_timer h w)) r =
           Some (c\<lparr>closeFlag := True, closeReason := Some CLOSE_TIMEOUT, timeId := 0\<rparr>) \<and>
         (\<forall>h' m. timers (snd (fire_timer h w)) h' \<noteq> Some (r, m)) \<and>
         (\<forall>w' c' h' m'. heap w' r = Some c' \<and> closeFlag c' \<and> timers w' h' = Some (r, m') \<longrightarrow>
            fire_timer h' w' =
              (Inr (), emit (Console ''Timeout close duplicate, last close reason'')
                         (w'\<lparr>timers := (timers w')(h' := None)\<rparr>)))"
proof -
  let ?w0 = "w\<lparr>timers := (timers w)(h := None)\<rparr>"
  have ft: "fire_timer h w = timeout_cb r ?w0"
    using assms(5) by (simp add: fire_timer_def)
  have a: "fst (timeout_cb r ?w0) = Inr ()"
    using assms(1-3)
    by (simp add: timeout_cb_def ok_def throw_def andThen_def u_close_def u_error_def
        u_remove_def modify_def emit_def Let_def split: option.splits)
  have b: "trace (snd (timeout_cb r ?w0)) =
           trace w @
           (case errFunc c of Some e \<Rightarrow> [ErrorCalled r e ''Get next ping timeout.''] | None \<Rightarrow> []) @
           [CloseCalled r f CLOSE_TIMEOUT ''closed by server'', End r] @
           (case rmFunc c of Some g \<Rightarrow> [RemoveCalled r g (id_c c)] | None \<Rightarrow> [])"
    using assms(1-3)
    by (simp add: timeout_cb_def ok_def throw_def andThen_def u_close_def u_error_def
        u_remove_def modify_def emit_def Let_def trace_apply_rmFunc split: option.splits)
  have c: "heap (snd (timeout_cb r ?w0)) r =
           Some (c\<lparr>closeFlag := True, closeReason := Some CLOSE_TIMEOUT, timeId := 0\<rparr>)"
    using assms(1-3)
    by (simp add: timeout_cb_def ok_def throw_def andThen_def u_close_def u_error_def
        u_remove_def modify_def emit_def Let_def heap_apply_rmFunc split: option.splits)
  have t: "timers (snd (timeout_cb r ?w0)) = (timers w)(h := None)"
    using assms(1-3)
    by (simp add: timeout_cb_def ok_def throw_def andThen_def u_close_def u_error_def
        u_remove_def modify_def emit_def Let_def timers_apply_rmFunc split: option.splits)
  have d: "\<forall>h' m. timers (snd (timeout_cb r ?w0)) h' \<noteq> Some (r, m)"
    using assms(6) by (auto simp add: t)
  have e: "\<forall>w' c' h' m'. heap w' r = Some c' \<and> closeFlag c' \<and> timers w' h' = Some (r, m') \<longrightarrow>
            fire_timer h' w' =
              (Inr (), emit (Console ''Timeout close duplicate, last close reason'')
                         (w'\<lparr>timers := (timers w')(h' := None)\<rparr>))"
    by (simp add: fire_timer_def timeout_cb_def ok_def)
  show ?thesis
    unfolding ft using a b c d e by blast
qed

theorem timeout_closes_once_witness:
  "heap demo_started 0 = Some (demo_comet\<lparr>timeId := 1\<rparr>) \<and>
   timers demo_started 1 = Some (0, 300000) \<and>
   fst (fire_timer 1 demo_started) = Inr () \<and>
   trace (snd (fire_timer 1 demo_started)) =
     trace demo_started @
     [ErrorCalled 0 ''err'' ''Get next ping timeout.'',
      CloseCalled 0 ''close'' CLOSE_TIMEOUT ''closed by server'', End 0,
      RemoveCalled 0 (User ''rm'') ''c1''] \<and>
   heap (snd (fire_timer 1 demo_started)) 0 =
     Some (demo_comet\<lparr>closeFlag := True, closeReason := Some CLOSE_TIMEOUT\<rparr>)"
proof -
  have h: "heap demo_started 0 = Some (demo_comet\<lparr>timeId := 1\<rparr>)"
    by (rule demo_started_heap)
  have o: "\<not> closeFlag (demo_comet\<lparr>timeId := 1\<rparr>)"
    by (simp add: demo_comet_def)
  have f: "closeFunc (demo_comet\<lparr>timeId := 1\<rparr>) = Some ''close''"
    by (simp add: demo_comet_def)
  have i: "timeId (demo_comet\<lparr>timeId := 1\<rparr>) = 1"
    by simp
  have t: "timers demo_started 1 = Some (0, 300000)"
    by (simp add: demo_started_timers)
  have u: "\<forall>h' m. timers demo_started h' = Some (0, m) \<longrightarrow> h' = 1"
    by (simp add: demo_started_timers)
  have "fst (fire_timer 1 demo_started) = Inr () \<and>
        trace (snd (fire_timer 1 demo_started)) =
          trace demo_started @
          (case errFunc (demo_comet\<lparr>timeId := 1\<rparr>) of
             Some e \<Rightarrow> [ErrorCalled 0 e ''Get next ping timeout.''] | None \<Rightarrow> []) @
          [CloseCalled 0 ''close'' CLOSE_TIMEOUT ''closed by server'', End 0] @
          (case rmFunc (demo_comet\<lparr>timeId := 1\<rparr>) of
             Some g \<Rightarrow> [RemoveCalled 0 g (id_c (demo_comet\<lparr>timeId := 1\<rparr>))] | None \<Rightarrow> []) \<and>
        heap (snd (fire_timer 1 demo_started)) 0 =
          Some (demo_comet\<lparr>timeId := 1, closeFlag := True, closeReason := Some CLOSE_TIMEOUT,
                  timeId := 0\<rparr>)"
    using timeout_closes_once [OF h o f i t u] by blast
  then show ?thesis
    using h t by (simp add: demo_comet_def)
qed




text \<open>
  Claim C10. A connection that is closed, without a pack hook, receives a heartbeat (the
  heartbeat closure of the registry, if installed, finds its \<open>keyMap\<close> entry). The call
  returns normally; it writes the pong frame, calls the heartbeat observer if one is
  registered, sets \<open>loopTimeout\<close> (to \<open>2000 * i\<close> when the ping carries a positive
  interval \<open>i\<close>), and arms a new timer with that delay (as the runtime takes it); no
  other field of the connection changes, so it stays closed with the reason recorded.
  When the new timer fires, the call only logs a diagnostic: the store is unchanged and
  no callback runs.
\<close>

theorem pong_on_closed_connection:
  assumes "heap w r = Some c" and "closeFlag c" and "pkFunc c = None" and "hb_can_run w c"
  shows "fst (pongMsg js now r m ct w) = Inr () \<and>
         trace (snd (pongMsg js now r m ct w)) =
           trace w @
           [Console ''comet push msg :'',
            Write r (bufAll [] (if truthy ct then prop_key ct else SEND_CONTENT_TYPE_APP) (js m))] @
           (case hbFunc c of Some g \<Rightarrow> [HeartCalled r g] | None \<Rightarrow> []) \<and>
         heap (snd (pongMsg js now r m ct w)) r =
           Some (c\<lparr>loopTimeout := next_loopTimeout c m, timeId := Suc (nextTimer w)\<rparr>) \<and>
         (msg_interval m = Some i \<and> 0 < i \<longrightarrow> next_loopTimeout c m = 2000 * i) \<and>
         timers (snd (pongMsg js now r m ct w)) (Suc (nextTimer w)) =
           Some (r, timer_delay (next_loopTimeout c m)) \<and>
         fire_timer (Suc (nextTimer w)) (snd (pongMsg js now r m ct w)) =
           (Inr (),
            emit (Console ''Timeout close duplicate, last close reason'')
              ((snd (pongMsg js now r m ct w))
                 \<lparr>timers := (timers (snd (pongMsg js now r m ct w)))(Suc (nextTimer w) := None)\<rparr>))"
proof -
  let ?w' = "snd (pongMsg js now r m ct w)"
  let ?h = "Suc (nextTimer w)"
  have hp: "heap ?w' r = Some (c\<lparr>loopTimeout := next_loopTimeout c m, timeId := ?h\<rparr>)"
    using assms(1,3) by (rule pongMsg_heap)
  have tm: "timers ?w' ?h = Some (r, timer_delay (next_loopTimeout c m))"
    using assms(1,3) by (rule pongMsg_timers)
  have fired: "fire_timer ?h ?w' =
      (Inr (), emit (Console ''Timeout close duplicate, last close reason'')
                 (?w'\<lparr>timers := (timers ?w')(?h := None)\<rparr>))"
    using hp tm assms(2) by (simp add: fire_timer_def timeout_cb_def ok_def)
  have nl: "msg_interval m = Some i \<and> 0 < i \<longrightarrow> next_loopTimeout c m = 2000 * i"
    by (simp add: next_loopTimeout_def)
  show ?thesis
    using pongMsg_returns [OF assms(1,3,4), of js now m ct]
      pongMsg_trace [OF assms(1,3), of js now m ct] hp tm fired nl
    by blast
qed

theorem pong_on_closed_connection_witness:
  "heap demo_closed 0 =
     Some (demo_comet\<lparr>closeFlag := True, closeReason := Some CLOSE_COMPEL\<rparr>) \<and>
   fst (pongMsg demo_stringify 7 0 demo_ping None demo_closed) = Inr () \<and>
   trace (snd (pongMsg demo_stringify 7 0 demo_ping None demo_closed)) =
     trace demo_closed @
     [Console ''comet push msg :'', Write 0 (bufAll [] SEND_CONTENT_TYPE_APP ''{}''),
      HeartCalled 0 (User ''hb'')] \<and>
   heap (snd (pongMsg demo_stringify 7 0 demo_ping None demo_closed)) 0 =
     Some (demo_comet\<lparr>closeFlag := True, closeReason := Some CLOSE_COMPEL,
             loopTimeout := 60000, timeId := Suc (nextTimer demo_closed)\<rparr>)"
proof -
  let ?c = "demo_comet\<lparr>closeFlag := True, closeReason := Some CLOSE_COMPEL\<rparr>"
  have h: "heap demo_closed 0 = Some ?c"
    by (rule demo_closed_heap)
  have o: "closeFlag ?c"
    by simp
  have p: "pkFunc ?c = None"
    by (simp add: demo_comet_def)
  have b: "hb_can_run demo_closed ?c"
    by (simp add: hb_can_run_def demo_comet_def)
  have "fst (pongMsg demo_stringify 7 0 demo_ping None demo_closed) = Inr () \<and>
        trace (snd (pongMsg demo_stringify 7 0 demo_ping None demo_closed)) =
          trace demo_closed @
          [Console ''comet push msg :'',
           Write 0 (bufAll [] (if truthy None then prop_key None else SEND_CONTENT_TYPE_APP)
                      (demo_stringify demo_ping))] @
          (case hbFunc ?c of Some g \<Rightarrow> [HeartCalled 0 g] | None \<Rightarrow> []) \<and>
        heap (snd (pongMsg demo_stringify 7 0 demo_ping None demo_closed)) 0 =
          Some (?c\<lparr>loopTimeout := next_loopTimeout ?c demo_ping,
                  timeId := Suc (nextTimer demo_closed)\<rparr>)"
    using pong_on_closed_connection [OF h o p b, where js = demo_stringify and now = 7
        and m = demo_ping and ct = None and i = 30]
    by blast
  then show ?thesis
    using h
    by (simp add: demo_comet_def demo_ping_def demo_stringify_def truthy_def
        next_loopTimeout_def)
qed

section \<open>Transactions\<close>

text \<open>
  Claim C4. A connection carries the send and echo closures of the registry (as every
  connection returned by \<open>createComet\<close> does) and no pack hook. \<open>sendMsg\<close> with transaction
  id \<open>sid\<close> and echo callback \<open>cb\<close> returns normally and registers \<open>sid\<close> in \<open>sendIds\<close> under
  the connection's id. \<open>echoMsg\<close> with a message \<open>e\<close> carrying \<open>sid\<close> then returns normally
  and makes exactly these calls: \<open>cb(e)\<close> once, the echo observer, the registry's log
  line. Afterwards \<open>sid\<close> is absent from \<open>sendIds\<close>, and a second \<open>echoMsg\<close> with \<open>e\<close> only
  logs that no event was found.
\<close>

theorem send_then_echo:
  assumes "heap w r = Some c" and "sendFunc c = Some Mgr" and "echoFunc c = Some Mgr"
    and "pkFunc c = None" and "msg_sid e = Some sid"
  shows "(let w1 = snd (sendMsg js r m ct (Some cb) sid w); w2 = snd (echoMsg r e w1)
          in fst (sendMsg js r m ct (Some cb) sid w) = Inr () \<and>
             map_of (sendIds w1) sid = Some (id_c c) \<and>
             fst (echoMsg r e w1) = Inr () \<and>
             trace w2 = trace w1 @
               [EchoCbCalled r cb e
                  (map fst (AList.update sid [EchoListener sid (Some cb)] (eventPool c))),
                EchoCalled r Mgr None sid e, Console ''comet: remove sender''] \<and>
             map_of (sendIds w2) sid = None \<and>
             echoMsg r e w2 = (Inr (), emit (Console ''event for not found'') w2))"
proof -
  let ?w1 = "snd (sendMsg js r m ct (Some cb) sid w)"
  let ?c1 = "c\<lparr>eventPool := AList.update sid [EchoListener sid (Some cb)] (eventPool c)\<rparr>"
  let ?w2 = "snd (echoMsg r e ?w1)"
  note s = sendMsg_plain [OF assms(1,2,4), of js m ct "Some cb" sid]
  have h1: "heap ?w1 r = Some ?c1" by (rule s(2))
  have p1: "map_of (eventPool ?c1) sid = Some [EchoListener sid (Some cb)]"
    by (simp add: AList.update_conv')
  note e = echoMsg_resolves [OF h1 p1 assms(5)]
  have reg: "map_of (sendIds ?w1) sid = Some (id_c c)"
    by (simp add: s(3) AList.update_conv')
  have tr: "trace ?w2 = trace ?w1 @
               [EchoCbCalled r cb e
                  (map fst (AList.update sid [EchoListener sid (Some cb)] (eventPool c))),
                EchoCalled r Mgr None sid e, Console ''comet: remove sender'']"
    using e(2) assms(3) by simp
  have unreg: "map_of (sendIds ?w2) sid = None"
    using e(4) assms(3) by (simp add: AList.delete_conv')
  have h2: "heap ?w2 r = Some (?c1\<lparr>eventPool := AList.delete sid (eventPool ?c1)\<rparr>)"
    by (rule e(3))
  have gone: "map_of (eventPool (?c1\<lparr>eventPool := AList.delete sid (eventPool ?c1)\<rparr>))
                (prop_key (msg_sid e)) = None"
    using assms(5) by (simp add: prop_key_def AList.delete_conv')
  have again: "echoMsg r e ?w2 = (Inr (), emit (Console ''event for not found'') ?w2)"
    using h2 gone by (rule echoMsg_unknown)
  show ?thesis
    unfolding Let_def using s(1) reg e(1) tr unreg again by blast
qed

theorem send_then_echo_witness:
  "fst (createComet (Some ''dev1'') ''u1'' empty_world) = Inr 0 \<and>
   heap demo_managed 0 = Some demo_managed_comet \<and>
   map_of (sendIds demo_managed_sent) ''s1'' = Some ''dev1'' \<and>
   trace (snd (echoMsg 0 demo_echo demo_managed_sent)) =
     trace demo_managed_sent @
     [EchoCbCalled 0 ''cb'' demo_echo [''s1''], EchoCalled 0 Mgr None ''s1'' demo_echo,
      Console ''comet: remove sender''] \<and>
   map_of (sendIds (snd (echoMsg 0 demo_echo demo_managed_sent))) ''s1'' = None"
proof -
  have made: "fst (createComet (Some ''dev1'') ''u1'' empty_world) = Inr 0"
    by (simp add: comet_defs)
  have h: "heap demo_managed 0 = Some demo_managed_comet"
    by (rule demo_managed_heap)
  have s: "sendFunc demo_managed_comet = Some Mgr" and e: "echoFunc demo_managed_comet = Some Mgr"
    and p: "pkFunc demo_managed_comet = None"
    by (simp_all add: demo_managed_comet_def)
  have m: "msg_sid demo_echo = Some ''s1''"
    by (simp add: demo_echo_def)
  have "map_of (sendIds demo_managed_sent) ''s1'' = Some (id_c demo_managed_comet) \<and>
        trace (snd (echoMsg 0 demo_echo demo_managed_sent)) =
          trace demo_managed_sent @
          [EchoCbCalled 0 ''cb'' demo_echo
             (map fst (AList.update ''s1'' [EchoListener ''s1'' (Some ''cb'')]
                         (eventPool demo_managed_comet))),
           EchoCalled 0 Mgr None ''s1'' demo_echo, Console ''comet: remove sender''] \<and>
        map_of (sendIds (snd (echoMsg 0 demo_echo demo_managed_sent))) ''s1'' = None"
    using send_then_echo [OF h s e p m, where js = demo_stringify and m = demo_msg
        and ct = None and cb = "''cb''"]
    unfolding Let_def demo_managed_sent_def by blast
  then show ?thesis
    using made h by (simp add: demo_managed_comet_def)
qed

text \<open>
  Claim C7 (fails on the code). On \<open>demo_sent\<close> the transaction \<open>s1\<close> is pending. When its
  echo is resolved, the echo callback is called while \<open>s1\<close> is still a key of \<open>eventPool\<close>:
  the listener calls \<open>echoCb\<close> first and deletes the entry after.
\<close>

theorem echo_callback_sees_waiter:
  "msg_sid demo_echo = Some ''s1'' \<and>
   fst (echoMsg 0 demo_echo demo_sent) = Inr () \<and>
   filter is_EchoCbCalled (trace (snd (echoMsg 0 demo_echo demo_sent))) =
     [EchoCbCalled 0 ''cb'' demo_echo [''s1'']]"
  by (simp add: demo_defs comet_defs)

text \<open>
  Claim C7 as amended. Whenever the echo of a pending transaction \<open>sid\<close> is resolved (its
  emitter holds the listener of \<open>sendMsg\<close> with a callback \<open>cb\<close>), \<open>echoMsg\<close> returns
  normally; its first call is \<open>cb(e)\<close>, made while \<open>sid\<close> is still a key of \<open>eventPool\<close>;
  the echo observer's call, if any, comes after it; and when \<open>echoMsg\<close> has returned,
  \<open>sid\<close> is no longer a key of \<open>eventPool\<close>.
\<close>

theorem waiter_removed_after_callback:
  assumes "heap w r = Some c"
    and "map_of (eventPool c) sid = Some [EchoListener sid' (Some cb)]"
    and "msg_sid e = Some sid"
  shows "fst (echoMsg r e w) = Inr () \<and>
         trace (snd (echoMsg r e w)) =
           trace w @ [EchoCbCalled r cb e (map fst (eventPool c))] @
           (case echoFunc c of
              Some g \<Rightarrow> EchoCalled r g None sid' e #
                        (case g of Mgr \<Rightarrow> [Console ''comet: remove sender''] | User u \<Rightarrow> [])
            | None \<Rightarrow> []) \<and>
         sid \<in> set (map fst (eventPool c)) \<and>
         (\<exists>c'. heap (snd (echoMsg r e w)) r = Some c' \<and> sid \<notin> set (map fst (eventPool c')))"
proof -
  note e = echoMsg_resolves [OF assms]
  have present: "sid \<in> set (map fst (eventPool c))"
    using map_of_SomeD [OF assms(2)] by (auto intro: rev_image_eqI)
  have absent: "sid \<notin> set (map fst (AList.delete sid (eventPool c)))"
    using AList.delete_notin_dom [of sid "eventPool c"] by simp
  have after: "\<exists>c'. heap (snd (echoMsg r e w)) r = Some c' \<and> sid \<notin> set (map fst (eventPool c'))"
    using e(3) absent by simp
  show ?thesis
    using e(1) e(2) present after by blast
qed

theorem waiter_removed_after_callback_witness:
  "heap demo_sent 0 =
     Some (demo_comet\<lparr>eventPool := [(''s1'', [EchoListener ''s1'' (Some ''cb'')])]\<rparr>) \<and>
   trace (snd (echoMsg 0 demo_echo demo_sent)) =
     trace demo_sent @
     [EchoCbCalled 0 ''cb'' demo_echo [''s1''], EchoCalled 0 (User ''echo'') None ''s1'' demo_echo] \<and>
   ''s1'' \<in> set [''s1'']"
proof -
  let ?c = "demo_comet\<lparr>eventPool := [(''s1'', [EchoListener ''s1'' (Some ''cb'')])]\<rparr>"
  have h: "heap demo_sent 0 = Some ?c"
    by (rule demo_sent_heap)
  have p: "map_of (eventPool ?c) ''s1'' = Some [EchoListener ''s1'' (Some ''cb'')]"
    by simp
  have m: "msg_sid demo_echo = Some ''s1''"
    by (simp add: demo_echo_def)
  have "trace (snd (echoMsg 0 demo_echo demo_sent)) =
          trace demo_sent @ [EchoCbCalled 0 ''cb'' demo_echo (map fst (eventPool ?c))] @
          (case echoFunc ?c of
             Some g \<Rightarrow> EchoCalled 0 g None ''s1'' demo_echo #
                       (case g of Mgr \<Rightarrow> [Console ''comet: remove sender''] | User u \<Rightarrow> [])
           | None \<Rightarrow> []) \<and>
        ''s1'' \<in> set (map fst (eventPool ?c))"
    using waiter_removed_after_callback [OF h p m] by blast
  then show ?thesis
    using h by (simp add: demo_comet_def)
qed

section \<open>The frame on the wire\<close>

text \<open>
  Claim C5 (fails on the code). The older file's \<open>_send\<close> pushes a frame that is not the
  frame of the specification: after the length line it has the lines \<open>X-Address: \<close> and
  \<open>X-Remote-Address: \<close>.
\<close>

theorem aes_frame_has_more_header_lines:
  "writes 0 (trace (snd (u_send_aes demo_stringify rev 0 demo_msg None None demo_bare))) =
     [spec_frame_p2p [] SEND_CONTENT_TYPE_APP (length (rev ''{}'')) (rev ''{}'')] \<and>
   writes 0 (trace (snd (u_send_aes demo_stringify rev 0 demo_msg None None demo_bare))) \<noteq>
     [spec_frame [] SEND_CONTENT_TYPE_APP (length (rev ''{}'')) (rev ''{}'')]"
  by (simp add: demo_defs comet_defs u_send_aes_def bufAll_aes_spec spec_frame_p2p_differs)

text \<open>
  Claim C5 as amended. Every frame the newer file's \<open>_send\<close> writes is the frame of the
  specification: the prefix (empty when none is given), the content type (the
  application type when none is given), the length line showing the byte length of the
  transformed payload, the empty line, that payload, the boundary; a call writes at most
  one frame, and without a pack hook it writes exactly one, whose payload is the JSON
  text. The older file's \<open>_send\<close> writes exactly one frame, the same with the two header
  lines \<open>X-Address: \<close> and \<open>X-Remote-Address: \<close> after the length line; its length line shows
  the byte length of the encrypted payload it writes.
\<close>

theorem pushed_frame_format:
  assumes "heap w r = Some c"
  shows "(\<exists>es. trace (snd (u_send js r m p ct w)) = trace w @ es \<and>
            (\<forall>r'. writes r' es = [] \<or>
                   writes r' es =
                     [spec_frame (if truthy p then prop_key p else [])
                        (if truthy ct then prop_key ct else SEND_CONTENT_TYPE_APP)
                        (length (transformed_payload c (js m)))
                        (transformed_payload c (js m))])) \<and>
         (pkFunc c = None \<longrightarrow>
            writes r (drop (length (trace w)) (trace (snd (u_send js r m p ct w)))) =
              [spec_frame (if truthy p then prop_key p else [])
                 (if truthy ct then prop_key ct else SEND_CONTENT_TYPE_APP)
                 (length (js m)) (js m)]) \<and>
         writes r (drop (length (trace w)) (trace (snd (u_send_aes js aesEnc r m p ct w)))) =
           [spec_frame_p2p (if truthy p then prop_key p else [])
              (if truthy ct then prop_key ct else SEND_CONTENT_TYPE_APP)
              (length (aesEnc (js m))) (aesEnc (js m))]"
  using assms
  by (auto simp add: u_send_def u_send_aes_def pack_continuation_def ok_def throw_def emit_def
      Let_def bufAll_spec bufAll_aes_spec transformed_payload_def
      split: option.splits pack_result.splits receiver.splits)

theorem pushed_frame_format_witness:
  "heap demo_observed 0 = Some demo_comet \<and>
   writes 0 (drop (length (trace demo_observed))
     (trace (snd (u_send demo_stringify 0 demo_msg None None demo_observed)))) =
     [''Content-Type: application/x-cloud-snipd'' @ CRLF @ ''Content-Length: 2'' @ CRLF @
      CRLF @ ''{}'' @ CRLF @ ''--ctalk_boundary'']"
proof -
  have h: "heap demo_observed 0 = Some demo_comet"
    by (rule demo_observed_heap)
  have p: "pkFunc demo_comet = None"
    by (simp add: demo_comet_def)
  have "writes 0 (drop (length (trace demo_observed))
          (trace (snd (u_send demo_stringify 0 demo_msg None None demo_observed)))) =
        [spec_frame (if truthy None then prop_key None else [])
           (if truthy None then prop_key None else SEND_CONTENT_TYPE_APP)
           (length (demo_stringify demo_msg)) (demo_stringify demo_msg)]"
    using pushed_frame_format [OF h, where js = demo_stringify and m = demo_msg and p = None
        and ct = None] p
    by blast
  then have w: "writes 0 (drop (length (trace demo_observed))
          (trace (snd (u_send demo_stringify 0 demo_msg None None demo_observed)))) =
        [spec_frame [] SEND_CONTENT_TYPE_APP 2 ''{}'']"
    by (simp add: truthy_def demo_stringify_def numeral_2_eq_2)
  have fr: "spec_frame [] SEND_CONTENT_TYPE_APP 2 ''{}'' =
        ''Content-Type: application/x-cloud-snipd'' @ CRLF @ ''Content-Length: 2'' @ CRLF @
        CRLF @ ''{}'' @ CRLF @ ''--ctalk_boundary''"
    by (simp add: spec_frame_def SEND_CONTENT_TYPE_APP_def decimal_2)
  show ?thesis
    unfolding w fr using h by simp
qed

section \<open>Replacing a connection\<close>

text \<open>
  Claim C6. The by-id index maps a non-empty \<open>cid\<close> to a connection \<open>old\<close> that has this
  id, is not closed, has a close callback and carries the registry's removal closure.
  \<open>createComet\<close> with \<open>cid\<close> first runs \<open>del\<close> on \<open>old\<close>: it returns normally, calls the close
  callback with \<open>CLOSE_COMPEL\<close>, ends the transport and calls the removal callback, each
  once; \<open>old\<close> is then closed with reason \<open>CLOSE_COMPEL\<close>, \<open>cid\<close> is out of the by-id index
  and no transaction points at \<open>cid\<close>. Only then the new connection is made and stored:
  \<open>createComet\<close> returns a new address, the index is the one \<open>del\<close> left with \<open>cid\<close> set to
  the new connection, no further call is made, \<open>old\<close> is untouched, and the index has
  exactly one entry for \<open>cid\<close>, the new connection, which has id \<open>cid\<close> and is not closed.
\<close>

theorem createComet_replaces:
  assumes "cid \<noteq> []" and "map_of (comets w) cid = Some old" and "heap w old = Some c"
    and "id_c c = cid" and "\<not> closeFlag c" and "closeFunc c = Some f"
    and "rmFunc c = Some Mgr" and "old < nextRef w"
  shows "(let w1 = snd (del old w); new = nextRef w;
              w2 = snd (createComet (Some cid) fresh w)
          in fst (del old w) = Inr () \<and>
             trace w1 = trace w @ [CloseCalled old f CLOSE_COMPEL ''closed by server'', End old,
                                   RemoveCalled old Mgr cid] \<and>
             heap w1 old =
               Some (c\<lparr>closeFlag := True, closeReason := Some CLOSE_COMPEL, timeId := 0\<rparr>) \<and>
             map_of (comets w1) cid = None \<and>
             (\<forall>sid. map_of (sendIds w1) sid \<noteq> Some cid) \<and>
             fst (createComet (Some cid) fresh w) = Inr new \<and> new \<noteq> old \<and>
             comets w2 = AList.update cid new (comets w1) \<and>
             trace w2 = trace w1 \<and>
             heap w2 old = heap w1 old \<and>
             map_of (comets w2) cid = Some new \<and>
             filter (\<lambda>kv. fst kv = cid) (comets w2) = [(cid, new)] \<and>
             (\<exists>c'. heap w2 new = Some c' \<and> id_c c' = cid \<and> \<not> closeFlag c'))"
proof -
  let ?w1 = "snd (del old w)"
  let ?new = "nextRef w"
  let ?w2 = "snd (createComet (Some cid) fresh w)"
  note d = del_open [OF assms(3,5,6,7)]
  have ret: "fst (del old w) = Inr ()" by (rule d(1))
  have tr1: "trace ?w1 = trace w @ [CloseCalled old f CLOSE_COMPEL ''closed by server'', End old,
                                   RemoveCalled old Mgr cid]"
    using d(2) assms(4) by simp
  have hp1: "heap ?w1 old =
               Some (c\<lparr>closeFlag := True, closeReason := Some CLOSE_COMPEL, timeId := 0\<rparr>)"
    by (simp add: d(3))
  have cm1: "comets ?w1 = AList.delete cid (comets w)"
    using d(4) assms(4) by simp
  have idx1: "map_of (comets ?w1) cid = None"
    by (simp add: cm1 AList.delete_conv')
  have sid1: "\<forall>sid. map_of (sendIds ?w1) sid \<noteq> Some cid"
    using assms(4) by (simp add: d(5) u_deleteComet_sendIds)
  have nr: "nextRef ?w1 = ?new" by (rule d(7))
  have ne: "?new \<noteq> old" using assms(8) by simp
  note cc = createComet_after_del [OF assms(1,2) ret, of fresh]
  have res: "fst (createComet (Some cid) fresh w) = Inr ?new"
    by (simp add: cc Let_def nr)
  have cm2: "comets ?w2 = AList.update cid ?new (comets ?w1)"
    by (simp add: cc Let_def nr onHeart_def onRemove_def onEcho_def onSend_def modify_def
        new_Comet_def)
  have tr2: "trace ?w2 = trace ?w1"
    by (simp add: cc Let_def nr onHeart_def onRemove_def onEcho_def onSend_def modify_def
        new_Comet_def)
  have hp2: "heap ?w2 old = heap ?w1 old"
    using ne
    by (simp add: cc Let_def nr onHeart_def onRemove_def onEcho_def onSend_def modify_def
        new_Comet_def)
  have idx2: "map_of (comets ?w2) cid = Some ?new"
    by (simp add: cm2 AList.update_conv')
  have only: "filter (\<lambda>kv. fst kv = cid) (comets ?w2) = [(cid, ?new)]"
    by (simp add: cm2 cm1 filter_update_delete)
  have fresh: "\<exists>c'. heap ?w2 ?new = Some c' \<and> id_c c' = cid \<and> \<not> closeFlag c'"
    using assms(1)
    by (simp add: cc Let_def nr onHeart_def onRemove_def onEcho_def onSend_def modify_def
        new_Comet_def truthy_def prop_key_def)
  show ?thesis
    unfolding Let_def
    using ret tr1 hp1 idx1 sid1 res ne cm2 tr2 hp2 idx2 only fresh by blast
qed

theorem createComet_replaces_witness:
  "map_of (comets demo_managed) ''dev1'' = Some 0 \<and>
   heap demo_managed 0 = Some demo_managed_comet \<and>
   fst (createComet (Some ''dev1'') ''u2'' demo_managed) = Inr 1 \<and>
   trace (snd (createComet (Some ''dev1'') ''u2'' demo_managed)) =
     [CloseCalled 0 ''close'' CLOSE_COMPEL ''closed by server'', End 0,
      RemoveCalled 0 Mgr ''dev1''] \<and>
   map_of (comets (snd (createComet (Some ''dev1'') ''u2'' demo_managed))) ''dev1'' = Some 1 \<and>
   heap (snd (createComet (Some ''dev1'') ''u2'' demo_managed)) 0 =
     Some (demo_managed_comet\<lparr>closeFlag := True, closeReason := Some CLOSE_COMPEL\<rparr>)"
proof -
  have n: "''dev1'' \<noteq> []" by simp
  have i: "map_of (comets demo_managed) ''dev1'' = Some 0"
    by (simp add: demo_defs comet_defs)
  have h: "heap demo_managed 0 = Some demo_managed_comet"
    by (rule demo_managed_heap)
  have c: "id_c demo_managed_comet = ''dev1''" "\<not> closeFlag demo_managed_comet"
    "closeFunc demo_managed_comet = Some ''close''" "rmFunc demo_managed_comet = Some Mgr"
    by (simp_all add: demo_managed_comet_def)
  have r: "nextRef demo_managed = 1" "trace demo_managed = []"
    by (simp_all add: demo_defs comet_defs)
  have a: "0 < nextRef demo_managed"
    by (simp add: r)
  have "fst (createComet (Some ''dev1'') ''u2'' demo_managed) = Inr (nextRef demo_managed) \<and>
        trace (snd (createComet (Some ''dev1'') ''u2'' demo_managed)) =
          trace demo_managed @
          [CloseCalled 0 ''close'' CLOSE_COMPEL ''closed by server'', End 0,
           RemoveCalled 0 Mgr ''dev1''] \<and>
        map_of (comets (snd (createComet (Some ''dev1'') ''u2'' demo_managed))) ''dev1'' =
          Some (nextRef demo_managed) \<and>
        heap (snd (createComet (Some ''dev1'') ''u2'' demo_managed)) 0 =
          Some (demo_managed_comet\<lparr>closeFlag := True, closeReason := Some CLOSE_COMPEL,
                  timeId := 0\<rparr>)"
    using createComet_replaces [OF n i h c a, where fresh = "''u2''"]
    unfolding Let_def by auto
  then show ?thesis
    using i h r by (simp add: demo_managed_comet_def)
qed

end
